theory Spec2Isabelle
  imports Main
begin

section \<open>Python strings\<close>

text \<open>
  A Python \<open>str\<close> is modelled as a \<open>string\<close> (a list of 8-bit characters, read as the
  code points 0..255). The string methods the two services call are written out below
  with Python's behaviour on every input; \<open>upper\<close> maps the ASCII letters only.
\<close>

abbreviation CR :: char where "CR \<equiv> CHR 0x0D"
abbreviation LF :: char where "LF \<equiv> CHR 0x0A"
abbreviation BSL :: char where "BSL \<equiv> CHR 0x5C"

text \<open>\<open>s.split(sep)\<close> for a one-character separator: never the empty list.\<close>

fun split_on :: "char \<Rightarrow> string \<Rightarrow> string list" where
  "split_on sep [] = [[]]"
| "split_on sep (c # cs) =
     (if c = sep then [] # split_on sep cs
      else (case split_on sep cs of [] \<Rightarrow> [[c]] | p # ps \<Rightarrow> (c # p) # ps))"

text \<open>\<open>sep.join(parts)\<close>.\<close>

fun join :: "string \<Rightarrow> string list \<Rightarrow> string" where
  "join sep [] = []"
| "join sep [x] = x"
| "join sep (x # y # ys) = x @ sep @ join sep (y # ys)"

text \<open>\<open>str.isspace\<close> on one character and \<open>s.strip()\<close>.\<close>

definition is_space :: "char \<Rightarrow> bool" where
  "is_space c \<longleftrightarrow>
     c \<in> set [CHR 0x09, CHR 0x0A, CHR 0x0B, CHR 0x0C, CHR 0x0D, CHR 0x1C, CHR 0x1D,
              CHR 0x1E, CHR 0x1F, CHR 0x20, CHR 0x85, CHR 0xA0]"

definition strip :: "string \<Rightarrow> string" where
  "strip s = rev (dropWhile is_space (rev (dropWhile is_space s)))"

text \<open>\<open>s.upper()\<close>.\<close>

definition upper_char :: "char \<Rightarrow> char" where
  "upper_char c =
     (case map_of (zip ''abcdefghijklmnopqrstuvwxyz'' ''ABCDEFGHIJKLMNOPQRSTUVWXYZ'') c of
        Some u \<Rightarrow> u
      | None \<Rightarrow> c)"

definition upper :: "string \<Rightarrow> string" where
  "upper s = map upper_char s"

text \<open>
  \<open>s.zfill(width)\<close>: zeros are inserted on the left, after a leading sign character.
\<close>

definition zfill :: "nat \<Rightarrow> string \<Rightarrow> string" where
  "zfill width s =
     (if width \<le> length s then s
      else (case s of
              c # cs \<Rightarrow>
                (if c = CHR ''+'' \<or> c = CHR ''-''
                 then c # replicate (width - length s) (CHR ''0'') @ cs
                 else replicate (width - length s) (CHR ''0'') @ s)
            | [] \<Rightarrow> replicate width (CHR ''0'')))"

text \<open>
  \<open>s.replace('\r\n', '\r')\<close> and \<open>s.replace('\n', '\r')\<close>, the two replacements of
  \<open>parse_hl7_message\<close>: leftmost, non-overlapping.
\<close>

fun replace_crlf :: "string \<Rightarrow> string" where
  "replace_crlf (a # b # cs) =
     (if a = CR \<and> b = LF then CR # replace_crlf cs else a # replace_crlf (b # cs))"
| "replace_crlf cs = cs"

definition replace_lf :: "string \<Rightarrow> string" where
  "replace_lf s = map (\<lambda>c. if c = LF then CR else c) s"

text \<open>\<open>s.find(c, start)\<close>: the first index at or after \<open>start\<close>, \<open>None\<close> for Python's -1.\<close>

fun find_index :: "char \<Rightarrow> string \<Rightarrow> nat option" where
  "find_index c [] = None"
| "find_index c (x # xs) = (if x = c then Some 0 else map_option Suc (find_index c xs))"

definition find_from :: "char \<Rightarrow> nat \<Rightarrow> string \<Rightarrow> nat option" where
  "find_from c start s = map_option (\<lambda>i. start + i) (find_index c (drop start s))"

text \<open>
  Truthiness of an optional string argument, and \<open>x or d\<close> on it.
\<close>

definition truthy :: "string option \<Rightarrow> bool" where
  "truthy x = (case x of None \<Rightarrow> False | Some s \<Rightarrow> s \<noteq> [])"

definition py_or :: "string option \<Rightarrow> string \<Rightarrow> string" where
  "py_or x d = (case x of None \<Rightarrow> d | Some s \<Rightarrow> if s \<noteq> [] then s else d)"

datatype error =
    ParseException
  | IndexError
  | AssertionError
  | ValueError string
  | HTTPException nat string

section \<open>The hl7 package: parsed messages\<close>

text \<open>
  \<open>hl7_converter.py\<close> reads the message through the third-party package \<open>hl7\<close>
  (python-hl7). A parsed \<open>Message\<close> is a list of \<open>Segment\<close>s, a \<open>Segment\<close> a list of
  \<open>Field\<close>s, a \<open>Field\<close> a list of repetitions. The converter uses four operations on them:
  iteration, \<open>len\<close>, truthiness and \<open>str\<close>. \<open>str\<close> of a container joins the \<open>str\<close> of
  its parts with the separator they were split on, so below a repetition is kept as its
  text. A container is a Python list: it is true iff it has an element. Every field the
  parser builds has at least one repetition, so it is true even when its text is empty.
\<close>

record hl7_field =
  separator :: char
  parts :: "string list"

type_synonym segment = "hl7_field list"
type_synonym message = "segment list"

definition str_field :: "hl7_field \<Rightarrow> string" where
  "str_field f = join [separator f] (parts f)"

definition field_true :: "hl7_field \<Rightarrow> bool" where
  "field_true f \<longleftrightarrow> parts f \<noteq> []"

text \<open>
  \<open>hl7.parse\<close>: the text is stripped; it must start with a header segment, whose fourth
  character is the field separator and whose next characters, up to the following field
  separator, declare the component, repetition, escape and sub-component separators.
  The text is split on carriage return into segments, a segment on the field separator
  into fields, a field on the repetition separator into repetitions, a repetition on the
  component separator and a component on the sub-component separator. A text that holds
  none of the separators of its level or below becomes a container of that text alone.
  In a header segment (\<open>MSH\<close>, \<open>FHS\<close>, \<open>BHS\<close>) the segment name, the field separator and
  the declared separators are the first three fields.

  The separators of the five levels are kept in one list: carriage return, field,
  repetition, component, sub-component. Before the parts of a text are split at the next
  level, the parser builds the plan of that level and asserts that the level's separator
  occurs first at its own position of the list; the assertion fails when the separator
  equals one of a level above.
\<close>

definition split_field :: "char \<Rightarrow> string \<Rightarrow> hl7_field" where
  "split_field rep text = \<lparr>separator = rep, parts = split_on rep text\<rparr>"

definition single_field :: "char \<Rightarrow> string \<Rightarrow> hl7_field" where
  "single_field rep text = \<lparr>separator = rep, parts = [text]\<rparr>"

definition applies :: "char list \<Rightarrow> string \<Rightarrow> bool" where
  "applies seps text \<longleftrightarrow> list_ex (\<lambda>s. s \<in> set text) seps"

definition plan_ok :: "char list \<Rightarrow> nat \<Rightarrow> bool" where
  "plan_ok separators level \<longleftrightarrow> find_index (separators ! level) separators = Some level"

text \<open>The first failing element of a comprehension aborts it.\<close>

fun collect :: "(error + 'a) list \<Rightarrow> error + 'a list" where
  "collect [] = Inr []"
| "collect (x # xs) =
     (case x of
        Inl e \<Rightarrow> Inl e
      | Inr v \<Rightarrow> (case collect xs of Inl e \<Rightarrow> Inl e | Inr vs \<Rightarrow> Inr (v # vs)))"

text \<open>
  A repetition: its text is kept; splitting it into components builds the plan of the
  component level.
\<close>

definition split_repetition :: "char list \<Rightarrow> string \<Rightarrow> error + string" where
  "split_repetition separators text =
     (if \<not> applies (drop 3 separators) text then Inr text
      else if plan_ok separators 4 then Inr text
      else Inl AssertionError)"

definition parse_field :: "char list \<Rightarrow> string \<Rightarrow> error + hl7_field" where
  "parse_field separators text =
     (if \<not> applies (drop 2 separators) text then Inr (single_field (separators ! 2) text)
      else if plan_ok separators 3 then
        (case collect (map (split_repetition separators) (split_on (separators ! 2) text)) of
           Inl e \<Rightarrow> Inl e
         | Inr reps \<Rightarrow> Inr \<lparr>separator = separators ! 2, parts = reps\<rparr>)
      else Inl AssertionError)"

definition split_fields :: "char list \<Rightarrow> string \<Rightarrow> error + segment" where
  "split_fields separators text =
     (if plan_ok separators 2
      then collect (map (parse_field separators) (split_on (separators ! 1) text))
      else Inl AssertionError)"

definition split_segment :: "char list \<Rightarrow> string \<Rightarrow> error + segment" where
  "split_segment separators text =
     (if \<not> applies (drop 1 separators) text then Inr [single_field (separators ! 2) text]
      else if take 3 text \<in> set [''MSH'', ''FHS'', ''BHS''] then
        (if length text < 4 then Inl IndexError
         else
           (let rep = separators ! 2;
                seg = take 3 text;
                sep0 = text ! 3;
                (seps, rest) =
                  (case find_from sep0 4 text of
                     Some e \<Rightarrow> (take (e - 4) (drop 4 text), drop (e + 1) text)
                   | None \<Rightarrow> (butlast (drop 4 text), text));
                data = [single_field rep seg, single_field rep [sep0], single_field rep seps]
            in if rest \<noteq> [] then
                 (case split_fields separators rest of
                    Inl e \<Rightarrow> Inl e
                  | Inr fs \<Rightarrow> Inr (data @ fs))
               else Inr data))
      else split_fields separators text)"

definition hl7_parse :: "string \<Rightarrow> error + message" where
  "hl7_parse lines =
     (let strmsg = strip lines in
      if take 3 strmsg \<notin> set [''MSH'', ''FHS'', ''BHS''] then Inl ParseException
      else if length strmsg < 4 then Inl IndexError
      else
        (let sep0 = strmsg ! 3;
             seps = (case find_from sep0 4 strmsg of
                       Some e \<Rightarrow> take (e - 3) (drop 3 strmsg)
                     | None \<Rightarrow> butlast (drop 3 strmsg))
         in if seps = [] then Inl IndexError
            else
              (let fs = seps ! 0;
                   rep = (if length seps > 2 then seps ! 2 else CHR ''~'');
                   comp = (if length seps > 1 then seps ! 1 else CHR ''^'');
                   sub = (if length seps > 4 then seps ! 4 else CHR ''&'');
                   separators = [CR, fs, rep, comp, sub]
               in if plan_ok separators 1
                  then collect (map (split_segment separators) (split_on CR strmsg))
                  else Inl AssertionError)))"

section \<open>emr_server/hl7_converter.py\<close>

definition parse_hl7_message :: "string \<Rightarrow> error + message" where
  "parse_hl7_message hl7_message = hl7_parse (replace_lf (replace_crlf hl7_message))"

definition parse_hl7_date :: "string \<Rightarrow> string option" where
  "parse_hl7_date date_str =
     (if date_str = [] \<or> length date_str < 8 then None
      else
        (let year = take 4 date_str;
             month = take 2 (drop 4 date_str);
             day = take 2 (drop 6 date_str)
         in Some (year @ ''-'' @ month @ ''-'' @ day)))"

text \<open>The FHIR resources are the dictionaries the converter builds, key by key.\<close>

record coding =
  c_system :: string
  c_code :: string
  c_display :: string

record fhir_identifier =
  i_use :: string
  i_type :: "coding list"
  i_value :: string

record human_name =
  n_use :: string
  n_family :: string
  n_given :: "string list"

record patient =
  p_resourceType :: string
  p_identifier :: "fhir_identifier list"
  p_name :: "human_name list"
  p_gender :: string
  p_birthDate :: "string option"

record coverage_class =
  cl_type :: "coding list"
  cl_value :: string
  cl_name :: "string option"

record coverage =
  cov_resourceType :: string
  cov_status :: string
  cov_beneficiary :: string
  cov_payor :: "string list"
  cov_subscriberId :: "string option"
  cov_class :: "coverage_class list option"

text \<open>
  The result of \<open>convert_hl7_to_fhir\<close> is a dictionary from the keys \<open>patient\<close> and
  \<open>coverage\<close> to a resource or \<open>None\<close>: a list of key and value pairs in insertion
  order. \<open>dict_set\<close> is the assignment \<open>d[k] = v\<close>.
\<close>

datatype resource = PatientResource patient | CoverageResource coverage

type_synonym conversion = "(string \<times> resource option) list"

fun dict_set :: "string \<Rightarrow> 'v \<Rightarrow> (string \<times> 'v) list \<Rightarrow> (string \<times> 'v) list" where
  "dict_set k v [] = [(k, v)]"
| "dict_set k v ((k', v') # kvs) =
     (if k' = k then (k, v) # kvs else (k', v') # dict_set k v kvs)"

definition parse_hl7_name :: "hl7_field \<Rightarrow> human_name" where
  "parse_hl7_name name_field =
     (let name_parts = split_on (CHR ''^'') (str_field name_field);
          fhir_name = \<lparr>n_use = ''official'',
                       n_family = (if length name_parts > 0 then name_parts ! 0 else []),
                       n_given = []\<rparr>;
          fhir_name = (if length name_parts > 1 \<and> name_parts ! 1 \<noteq> []
                       then fhir_name\<lparr>n_given := n_given fhir_name @ [name_parts ! 1]\<rparr>
                       else fhir_name);
          fhir_name = (if length name_parts > 2 \<and> name_parts ! 2 \<noteq> []
                       then fhir_name\<lparr>n_given := n_given fhir_name @ [name_parts ! 2]\<rparr>
                       else fhir_name)
      in fhir_name)"

text \<open>The identifier entry that \<open>pid_to_fhir_patient\<close> appends for an MRN.\<close>

definition mr_identifier :: "string \<Rightarrow> fhir_identifier" where
  "mr_identifier mrn =
     \<lparr>i_use = ''usual'',
      i_type = [\<lparr>c_system = ''http://terminology.hl7.org/CodeSystem/v2-0203'',
                 c_code = ''MR'',
                 c_display = ''Medical Record Number''\<rparr>],
      i_value = mrn\<rparr>"

definition gender_map :: "string \<Rightarrow> string option" where
  "gender_map = map_of [(''M'', ''male''), (''F'', ''female''), (''O'', ''other''), (''U'', ''unknown'')]"

definition pid_to_fhir_patient :: "segment \<Rightarrow> patient" where
  "pid_to_fhir_patient pid_segment =
     (let patient = \<lparr>p_resourceType = ''Patient'', p_identifier = [], p_name = [],
                     p_gender = ''unknown'', p_birthDate = None\<rparr>;
          patient =
            (if length pid_segment > 3 \<and> field_true (pid_segment ! 3) then
               (let mrn = hd (split_on (CHR ''^'') (str_field (pid_segment ! 3)))
                in patient\<lparr>p_identifier := p_identifier patient @ [mr_identifier mrn]\<rparr>)
             else patient);
          patient =
            (if length pid_segment > 5 \<and> field_true (pid_segment ! 5)
             then patient\<lparr>p_name := p_name patient @ [parse_hl7_name (pid_segment ! 5)]\<rparr>
             else patient);
          patient =
            (if length pid_segment > 7 \<and> field_true (pid_segment ! 7) then
               (case parse_hl7_date (str_field (pid_segment ! 7)) of
                  Some dob \<Rightarrow> (if dob \<noteq> [] then patient\<lparr>p_birthDate := Some dob\<rparr> else patient)
                | None \<Rightarrow> patient)
             else patient);
          patient =
            (if length pid_segment > 8 \<and> field_true (pid_segment ! 8) then
               (let gender_code = upper (str_field (pid_segment ! 8))
                in patient\<lparr>p_gender :=
                     (case gender_map gender_code of Some g \<Rightarrow> g | None \<Rightarrow> ''unknown'')\<rparr>)
             else patient)
      in patient)"

text \<open>The two class entries that \<open>in1_to_fhir_coverage\<close> appends.\<close>

definition group_class :: "string \<Rightarrow> coverage_class" where
  "group_class group_number =
     \<lparr>cl_type = [\<lparr>c_system = ''http://terminology.hl7.org/CodeSystem/coverage-class'',
                  c_code = ''group'', c_display = ''Group''\<rparr>],
      cl_value = group_number, cl_name = None\<rparr>"

definition plan_class :: "string \<Rightarrow> coverage_class" where
  "plan_class plan_name =
     \<lparr>cl_type = [\<lparr>c_system = ''http://terminology.hl7.org/CodeSystem/coverage-class'',
                  c_code = ''plan'', c_display = ''Plan''\<rparr>],
      cl_value = plan_name, cl_name = Some plan_name\<rparr>"

definition add_class :: "coverage_class \<Rightarrow> coverage \<Rightarrow> coverage" where
  "add_class entry coverage =
     coverage\<lparr>cov_class :=
       Some ((case cov_class coverage of None \<Rightarrow> [] | Some cs \<Rightarrow> cs) @ [entry])\<rparr>"

definition in1_to_fhir_coverage :: "segment \<Rightarrow> string \<Rightarrow> coverage" where
  "in1_to_fhir_coverage in1_segment patient_reference =
     (let coverage = \<lparr>cov_resourceType = ''Coverage'', cov_status = ''active'',
                      cov_beneficiary = patient_reference, cov_payor = [],
                      cov_subscriberId = None, cov_class = None\<rparr>;
          coverage =
            (if length in1_segment > 2 \<and> field_true (in1_segment ! 2) then
               (let member_id = hd (split_on (CHR ''^'') (str_field (in1_segment ! 2)))
                in coverage\<lparr>cov_subscriberId := Some member_id\<rparr>)
             else coverage);
          coverage =
            (if length in1_segment > 4 \<and> field_true (in1_segment ! 4) then
               (let insurance_name = str_field (in1_segment ! 4)
                in coverage\<lparr>cov_payor := cov_payor coverage @ [insurance_name]\<rparr>)
             else coverage);
          coverage =
            (if length in1_segment > 8 \<and> field_true (in1_segment ! 8) then
               (let group_number = strip (str_field (in1_segment ! 8))
                in if group_number \<noteq> [] then
                     add_class (group_class group_number) coverage
                   else coverage)
             else coverage);
          coverage =
            (if length in1_segment > 9 \<and> field_true (in1_segment ! 9) then
               (let plan_name = strip (str_field (in1_segment ! 9))
                in if plan_name \<noteq> [] then
                     add_class (plan_class plan_name) coverage
                   else coverage)
             else coverage)
      in coverage)"

text \<open>
  The loop of \<open>convert_hl7_to_fhir\<close> over the segments, with its two variables
  \<open>pid_segment\<close> and \<open>in1_segment\<close>; \<open>segment[0]\<close> raises on a segment with no field.
\<close>

fun find_segments ::
  "message \<Rightarrow> segment option \<Rightarrow> segment option \<Rightarrow> error + (segment option \<times> segment option)"
where
  "find_segments [] pid_segment in1_segment = Inr (pid_segment, in1_segment)"
| "find_segments (segment # rest) pid_segment in1_segment =
     (case segment of
        [] \<Rightarrow> Inl IndexError
      | f # _ \<Rightarrow>
          (let segment_type = str_field f in
           if segment_type = ''PID'' then find_segments rest (Some segment) in1_segment
           else if segment_type = ''IN1'' then find_segments rest pid_segment (Some segment)
           else find_segments rest pid_segment in1_segment))"

text \<open>
  \<open>convert_message\<close> is the body of \<open>convert_hl7_to_fhir\<close> from the loop on, and
  \<open>convert_hl7_to_fhir\<close> runs it on the parsed message; an exception of the parser or of
  the loop is the result \<open>Inl\<close>.
\<close>

definition convert_message :: "message \<Rightarrow> error + conversion" where
  "convert_message message =
     (case find_segments message None None of
        Inl e \<Rightarrow> Inl e
      | Inr (pid_segment, in1_segment) \<Rightarrow>
          (let result = [(''patient'', None), (''coverage'', None)] in
           case pid_segment of
             None \<Rightarrow> Inr result
           | Some pid \<Rightarrow>
               if pid = [] then Inr result
               else
                 (let patient = pid_to_fhir_patient pid;
                      result = dict_set ''patient'' (Some (PatientResource patient)) result
                  in case in1_segment of
                       None \<Rightarrow> Inr result
                     | Some in1 \<Rightarrow>
                         if in1 = [] then Inr result
                         else
                           (let patient_id =
                                  (case p_identifier patient of
                                     [] \<Rightarrow> ''temp''
                                   | i # _ \<Rightarrow> i_value i)
                            in Inr (dict_set ''coverage''
                                 (Some (CoverageResource
                                    (in1_to_fhir_coverage in1 (''Patient/'' @ patient_id))))
                                 result)))))"

definition convert_hl7_to_fhir :: "string \<Rightarrow> error + conversion" where
  "convert_hl7_to_fhir hl7_message =
     (case parse_hl7_message hl7_message of
        Inl e \<Rightarrow> Inl e
      | Inr message \<Rightarrow> convert_message message)"

section \<open>integration_service/hl7_generator.py\<close>

text \<open>
  The reading of the clock, \<open>datetime.now().strftime("%Y%m%d%H%M%S")\<close>, is the first
  argument \<open>timestamp\<close> of both generators.
\<close>

definition format_date_for_hl7 :: "string \<Rightarrow> error + string" where
  "format_date_for_hl7 date_str =
     (case split_on (CHR ''/'') date_str of
        [month, day, year] \<Rightarrow> Inr (year @ zfill 2 month @ zfill 2 day)
      | _ \<Rightarrow> Inl (ValueError (''Invalid date format. Expected MM/DD/YYYY, got '' @ date_str)))"

text \<open>
  \<open>in1_parts\<close> is the list of that name, as \<open>generate_hl7_adt_message\<close> has built it when
  it joins it with \<open>|\<close>.
\<close>

definition in1_parts ::
  "string option \<Rightarrow> string option \<Rightarrow> string option \<Rightarrow> string option \<Rightarrow> string list" where
  "in1_parts insurance_name member_id plan group_number =
     (let in1_parts = [''IN1'', ''1'', py_or member_id [], [], py_or insurance_name [],
                       [], [], [], []];
          in1_parts = (case group_number of
                         Some g \<Rightarrow> if g \<noteq> [] then in1_parts @ [g] else in1_parts @ [[]]
                       | None \<Rightarrow> in1_parts @ [[]]);
          in1_parts = (case plan of
                         Some p \<Rightarrow> if p \<noteq> [] then in1_parts @ [p] else in1_parts
                       | None \<Rightarrow> in1_parts)
      in in1_parts)"

definition generate_hl7_adt_message ::
  "string \<Rightarrow> string option \<Rightarrow> string \<Rightarrow> string \<Rightarrow> string \<Rightarrow> string \<Rightarrow>
   string option \<Rightarrow> string option \<Rightarrow> string option \<Rightarrow> string option \<Rightarrow> error + string" where
  "generate_hl7_adt_message timestamp mrn last_name first_name dob gender
       insurance_name member_id plan group_number =
     (let mrn = py_or mrn (''MRN'' @ timestamp);
          msg_id = ''MSG'' @ timestamp;
          msh = ''MSH|^~'' @ [BSL] @ ''&|INTEGRATION|CLINIC|EMR|HOSPITAL|'' @ timestamp @
                ''||ADT^A04|'' @ msg_id @ ''|P|2.5''
      in case format_date_for_hl7 dob of
           Inl e \<Rightarrow> Inl e
         | Inr hl7_dob \<Rightarrow>
             (let hl7_gender = (if upper gender \<in> set [''MALE'', ''M''] then ''M'' else ''F'');
                  pid = ''PID|1||'' @ mrn @ ''^^^MRN||'' @ last_name @ ''^'' @ first_name @
                        ''||'' @ hl7_dob @ ''|'' @ hl7_gender;
                  segments = [msh, pid];
                  segments =
                    (if truthy insurance_name \<and> truthy member_id
                     then segments @
                          [join ''|'' (in1_parts insurance_name member_id plan group_number)]
                     else segments)
              in Inr (join [CR] segments)))"

section \<open>integration_service/patient_service.py\<close>

record InsuranceInfo =
  ins_name :: string
  ins_memberID :: string
  ins_plan :: string
  ins_groupNumber :: string

record PatientData =
  pd_mrn :: "string option"
  pd_lastName :: string
  pd_firstName :: string
  pd_dob :: string
  pd_gender :: string
  pd_insurance :: "InsuranceInfo option"

text \<open>
  The service's own \<open>format_date_for_hl7\<close>: its \<open>except\<close> turns the \<open>ValueError\<close> into an
  \<open>HTTPException\<close> with status 400.
\<close>

definition ps_format_date_for_hl7 :: "string \<Rightarrow> error + string" where
  "ps_format_date_for_hl7 date_str =
     (case split_on (CHR ''/'') date_str of
        [month, day, year] \<Rightarrow> Inr (year @ zfill 2 month @ zfill 2 day)
      | _ \<Rightarrow> Inl (HTTPException 400
                 (''Invalid date format. Expected MM/DD/YYYY, got '' @ date_str)))"

definition generate_hl7_message :: "string \<Rightarrow> PatientData \<Rightarrow> error + string" where
  "generate_hl7_message timestamp patient_data =
     (let msg_id = ''MSG'' @ timestamp;
          msh = ''MSH|^~'' @ [BSL] @ ''&|INTEGRATION|CLINIC|EMR|HOSPITAL|'' @ timestamp @
                ''||ADT^A04|'' @ msg_id @ ''|P|2.5'';
          mrn = py_or (pd_mrn patient_data) (''MRN'' @ timestamp);
          last_name = pd_lastName patient_data;
          first_name = pd_firstName patient_data
      in case ps_format_date_for_hl7 (pd_dob patient_data) of
           Inl e \<Rightarrow> Inl e
         | Inr dob \<Rightarrow>
             (let gender = (if upper (pd_gender patient_data) \<in> set [''MALE'', ''M'']
                            then ''M'' else ''F'');
                  pid = ''PID|1||'' @ mrn @ ''^^^MRN||'' @ last_name @ ''^'' @ first_name @
                        ''||'' @ dob @ ''|'' @ gender;
                  segments = [msh, pid];
                  segments =
                    (case pd_insurance patient_data of
                       Some ins \<Rightarrow>
                         segments @
                         [''IN1|1|'' @ ins_memberID ins @ ''||'' @ ins_name ins @ ''|||||'' @
                          ins_groupNumber ins @ ''|'' @ ins_plan ins]
                     | None \<Rightarrow> segments)
              in Inr (join [CR] segments)))"

section \<open>Segments of a type\<close>

text \<open>
  The segments of a parsed message whose first field reads as the given type code, in
  message order: the segments the loop of \<open>convert_hl7_to_fhir\<close> assigns for that code.
\<close>

definition segments_of :: "string \<Rightarrow> message \<Rightarrow> segment list" where
  "segments_of ty message =
     filter (\<lambda>segment. case segment of [] \<Rightarrow> False | f # _ \<Rightarrow> str_field f = ty) message"

section \<open>Concrete inputs\<close>

text \<open>A PID segment as the parser builds it, with the given text in field 8.\<close>

definition pid_with_gender :: "string \<Rightarrow> segment" where
  "pid_with_gender g =
     map (single_field (CHR ''~''))
       [''PID'', ''1'', [], ''MRN1'', [], ''Smith^John'', [], ''19801215'', g]"

text \<open>
  The header line and the message of \<open>emr_server/test_server.py\<close>, whose lines end in
  line feeds, and the same scenario with the group number in IN1 field 8 and the plan in
  IN1 field 9.
\<close>

definition msh_line :: string where
  "msh_line = ''MSH|^~'' @ [BSL] @ ''&|EPIC|HOSPITAL|EMR|CLINIC|20231031120000||ADT^A04|MSG00001|P|2.5''"

definition accepted_test_message :: string where
  "accepted_test_message =
     msh_line @ [LF] @
     ''PID|1||MRN123456^^^MRN||Smith^John^A||19801215|M|||123 Main St^^Boston^MA^02101||555-1234|||S||ACCT123456'' @ [LF] @
     ''IN1|1|PPO123|BC001|BlueCross BlueShield|PO Box 1234^^Boston^MA^02101|||||GRP456789|Gold Plan PPO''"

definition scenario_message :: string where
  "scenario_message =
     msh_line @ [CR] @
     ''PID|1||MRN123456^^^MRN||Smith^John^A||19801215|M'' @ [CR] @
     ''IN1|1|PPO123|BC001|BlueCross BlueShield||||GRP456789|Gold Plan PPO''"

text \<open>
  A message with two PID and two IN1 segments, and the two messages that hold one pair
  each.
\<close>

definition duplicate_message :: string where
  "duplicate_message =
     msh_line @ [CR] @
     ''PID|1||MRN1^^^MRN||Smith^John||19801215|M'' @ [CR] @
     ''IN1|1|PPO1||Acme||||G1|Gold'' @ [CR] @
     ''PID|2||MRN2^^^MRN||Jones^Mary||19900101|F'' @ [CR] @
     ''IN1|2|PPO2||Zenith||||G2|Silver''"

definition first_only_message :: string where
  "first_only_message =
     msh_line @ [CR] @
     ''PID|1||MRN1^^^MRN||Smith^John||19801215|M'' @ [CR] @
     ''IN1|1|PPO1||Acme||||G1|Gold''"

definition later_only_message :: string where
  "later_only_message =
     msh_line @ [CR] @
     ''PID|2||MRN2^^^MRN||Jones^Mary||19900101|F'' @ [CR] @
     ''IN1|2|PPO2||Zenith||||G2|Silver''"

text \<open>
  A message with an IN1 segment and no PID segment, one whose PID segment stops before
  field 3, one with a PID segment and no IN1 segment, and the fields of the header line
  as the parser builds them.
\<close>

definition orphan_in1_message :: string where
  "orphan_in1_message = msh_line @ [CR] @ ''IN1|1|PPO1||Acme''"

definition short_pid_message :: string where
  "short_pid_message = msh_line @ [CR] @ ''PID|1'' @ [CR] @ ''IN1|1|PPO1||Acme''"

definition pid_only_message :: string where
  "pid_only_message = msh_line @ [CR] @ ''PID|1||MRN1^^^MRN||Smith^John||19801215|M''"

definition msh_fields :: segment where
  "msh_fields =
     [single_field (CHR ''~'') ''MSH'', single_field (CHR ''~'') ''|'',
      single_field (CHR ''~'') (''^~'' @ [BSL] @ ''&''),
      split_field (CHR ''~'') ''EPIC'', split_field (CHR ''~'') ''HOSPITAL'',
      split_field (CHR ''~'') ''EMR'', split_field (CHR ''~'') ''CLINIC'',
      split_field (CHR ''~'') ''20231031120000'', split_field (CHR ''~'') [],
      split_field (CHR ''~'') ''ADT^A04'', split_field (CHR ''~'') ''MSG00001'',
      split_field (CHR ''~'') ''P'', split_field (CHR ''~'') ''2.5'']"

text \<open>
  A request of the patient service with a full insurance block, and the message both
  generators build from it at the clock reading 20231031120000.
\<close>

definition patient_insured :: PatientData where
  "patient_insured =
     \<lparr>pd_mrn = Some ''MRN1'', pd_lastName = ''Smith'', pd_firstName = ''John'',
      pd_dob = ''12/15/1980'', pd_gender = ''Male'',
      pd_insurance = Some \<lparr>ins_name = ''Acme'', ins_memberID = ''M1'', ins_plan = ''Gold'',
                            ins_groupNumber = ''G1''\<rparr>\<rparr>"

definition generated_insured_message :: string where
  "generated_insured_message =
     ''MSH|^~'' @ [BSL] @ ''&|INTEGRATION|CLINIC|EMR|HOSPITAL|20231031120000||ADT^A04|MSG20231031120000|P|2.5'' @ [CR] @
     ''PID|1||MRN1^^^MRN||Smith^John||19801215|M'' @ [CR] @
     ''IN1|1|M1||Acme|||||G1|Gold''"

section \<open>Facts about the string functions\<close>

lemma split_on_not_Nil: "split_on sep s \<noteq> []"
  by (induction s) (auto split: list.splits)

lemma length_split_on: "length (split_on sep s) = Suc (length (filter (\<lambda>c. c = sep) s))"
  by (induction s) (auto split: list.splits simp: split_on_not_Nil)

lemma join_split_on: "join [sep] (split_on sep s) = s"
proof (induction s)
  case Nil
  show ?case by simp
next
  case (Cons c cs)
  obtain p ps where ps: "split_on sep cs = p # ps"
    using split_on_not_Nil [of sep cs] by (cases "split_on sep cs") auto
  show ?case
  proof (cases "c = sep")
    case True
    with Cons ps show ?thesis by simp
  next
    case False
    with Cons ps show ?thesis by (cases ps) auto
  qed
qed

lemma split_on_none: "sep \<notin> set a \<Longrightarrow> split_on sep a = [a]"
  by (induction a) auto

lemma split_on_append: "sep \<notin> set a \<Longrightarrow> split_on sep (a @ sep # b) = a # split_on sep b"
  by (induction a) auto

lemma replace_crlf_id: "LF \<notin> set s \<Longrightarrow> replace_crlf s = s"
  by (induction s rule: replace_crlf.induct) auto

lemma replace_lf_id: "LF \<notin> set s \<Longrightarrow> replace_lf s = s"
  unfolding replace_lf_def by (induction s) auto

lemma strip_Nil: "strip [] = []"
  by (simp add: strip_def)

lemma strip_id:
  assumes "s \<noteq> []" and "\<not> is_space (hd s)" and "\<not> is_space (last s)"
  shows "strip s = s"
proof -
  from assms(1,2) have a: "dropWhile is_space s = s" by (cases s) auto
  from assms(1,3) have b: "dropWhile is_space (rev s) = rev s"
    by (cases "rev s") (auto simp: hd_rev)
  show ?thesis by (simp add: strip_def a b)
qed

lemma upper_Nil: "upper [] = []"
  by (simp add: upper_def)

section \<open>Facts about parsed messages\<close>

lemma str_field_falsy: "\<not> field_true f \<Longrightarrow> str_field f = []"
  by (simp add: field_true_def str_field_def)

lemma field_true_str: "str_field f \<noteq> [] \<Longrightarrow> field_true f"
  using str_field_falsy by blast

lemma str_split_field: "str_field (split_field rep text) = text"
  by (simp add: str_field_def split_field_def join_split_on)

lemma collect_Inr:
  "collect xs = Inr ys \<Longrightarrow> y \<in> set ys \<Longrightarrow> Inr y \<in> set xs"
proof (induction xs arbitrary: ys)
  case Nil
  then show ?case by simp
next
  case (Cons x xs)
  then show ?case by (auto split: sum.splits)
qed

lemma collect_length: "collect xs = Inr ys \<Longrightarrow> length ys = length xs"
proof (induction xs arbitrary: ys)
  case Nil
  then show ?case by simp
next
  case (Cons x xs)
  then show ?case by (auto split: sum.splits)
qed

lemma collect_map_Inr: "collect (map (\<lambda>x. Inr (f x)) xs) = Inr (map f xs)"
  by (induction xs) auto

lemma collect_all_Inr: "collect (map Inr xs) = Inr xs"
  by (induction xs) auto

lemma split_fields_not_Nil: "split_fields separators text = Inr seg \<Longrightarrow> seg \<noteq> []"
proof -
  assume "split_fields separators text = Inr seg"
  then have "length seg = length (split_on (separators ! 1) text)"
    by (auto simp: split_fields_def dest: collect_length split: if_splits)
  then show ?thesis
    using split_on_not_Nil [of "separators ! 1" "text"] by auto
qed

lemma split_segment_not_Nil: "split_segment separators text = Inr seg \<Longrightarrow> seg \<noteq> []"
  by (auto simp: split_segment_def Let_def dest: split_fields_not_Nil
      split: if_splits prod.splits sum.splits)

lemma hl7_parse_segments_not_Nil:
  assumes "hl7_parse s = Inr m" and "seg \<in> set m"
  shows "seg \<noteq> []"
proof -
  from assms(1) obtain separators texts where
    "collect (map (split_segment separators) texts) = Inr m"
    by (auto simp: hl7_parse_def Let_def split: if_splits)
  then have "Inr seg \<in> set (map (split_segment separators) texts)"
    using assms(2) by (rule collect_Inr)
  then obtain raw where "split_segment separators raw = Inr seg" by auto
  then show ?thesis by (rule split_segment_not_Nil)
qed

text \<open>
  With the separators that the header \<open>MSH|^~\&|\<close> declares no assertion fails, and a
  segment is the list of its fields split on \<open>~\<close>.
\<close>

lemma parse_field_standard:
  "parse_field [CR, CHR ''|'', CHR ''~'', CHR ''^'', CHR ''&''] text =
     Inr (split_field (CHR ''~'') text)"
proof (cases "applies [CHR ''~'', CHR ''^'', CHR ''&''] text")
  case True
  have "split_repetition [CR, CHR ''|'', CHR ''~'', CHR ''^'', CHR ''&''] = Inr"
    by (rule ext) (simp add: split_repetition_def plan_ok_def)
  with True show ?thesis
    by (simp add: parse_field_def plan_ok_def split_field_def collect_all_Inr)
next
  case False
  then have "CHR ''~'' \<notin> set text" by (simp add: applies_def)
  with False show ?thesis
    by (simp add: parse_field_def split_field_def single_field_def split_on_none)
qed

lemma split_fields_standard:
  "split_fields [CR, CHR ''|'', CHR ''~'', CHR ''^'', CHR ''&''] text =
     Inr (map (split_field (CHR ''~'')) (split_on (CHR ''|'') text))"
proof -
  have "parse_field [CR, CHR ''|'', CHR ''~'', CHR ''^'', CHR ''&''] =
        (\<lambda>x. Inr (split_field (CHR ''~'') x))"
    by (rule ext) (rule parse_field_standard)
  then show ?thesis
    by (simp add: split_fields_def plan_ok_def collect_map_Inr)
qed

lemma split_segment_header:
  "\<exists>rest. split_segment [CR, CHR ''|'', CHR ''~'', CHR ''^'', CHR ''&''] (''MSH|'' @ t) =
     Inr (single_field (CHR ''~'') ''MSH'' # rest)"
  by (simp add: split_segment_def split_fields_standard applies_def Let_def split: prod.splits)

section \<open>Facts about the converter\<close>

lemma gender_map_cases:
  "(case gender_map c of Some g \<Rightarrow> g | None \<Rightarrow> ''unknown'') =
     (if c = ''M'' then ''male'' else if c = ''F'' then ''female''
      else if c = ''O'' then ''other'' else ''unknown'')"
  by (simp add: gender_map_def)

lemma p_gender_pid:
  "p_gender (pid_to_fhir_patient seg) =
     (if length seg > 8 \<and> field_true (seg ! 8)
      then (case gender_map (upper (str_field (seg ! 8))) of Some g \<Rightarrow> g | None \<Rightarrow> ''unknown'')
      else ''unknown'')"
  by (simp add: pid_to_fhir_patient_def Let_def split: option.splits)

lemma cov_class_in1:
  "cov_class (in1_to_fhir_coverage seg ref) =
     (let g = strip (if 8 < length seg then str_field (seg ! 8) else []);
          p = strip (if 9 < length seg then str_field (seg ! 9) else [])
      in if g = [] \<and> p = [] then None
         else Some ((if g = [] then [] else [group_class g]) @
                    (if p = [] then [] else [plan_class p])))"
proof -
  have a: "\<not> field_true (seg ! 8) \<Longrightarrow> strip (str_field (seg ! 8)) = []"
    by (simp add: str_field_falsy strip_Nil)
  have b: "\<not> field_true (seg ! 9) \<Longrightarrow> strip (str_field (seg ! 9)) = []"
    by (simp add: str_field_falsy strip_Nil)
  show ?thesis
    using a b
    by (auto simp: in1_to_fhir_coverage_def Let_def add_class_def strip_Nil)
qed

lemma cov_beneficiary_in1: "cov_beneficiary (in1_to_fhir_coverage seg ref) = ref"
  by (simp add: in1_to_fhir_coverage_def Let_def add_class_def)

text \<open>
  The loop keeps the segment it saw last for each type code, so the conversion of a
  parsed message is decided by the last PID and the last IN1 segment.
\<close>

lemma find_segments_last:
  assumes "\<forall>seg \<in> set m. seg \<noteq> []"
  shows "find_segments m pid in1 =
           Inr (if segments_of ''PID'' m = [] then pid else Some (last (segments_of ''PID'' m)),
                if segments_of ''IN1'' m = [] then in1 else Some (last (segments_of ''IN1'' m)))"
  using assms
proof (induction m arbitrary: pid in1)
  case Nil
  show ?case by (simp add: segments_of_def)
next
  case (Cons seg m)
  then obtain f fs where seg: "seg = f # fs" by (cases seg) auto
  from Cons.prems have rest: "\<forall>seg \<in> set m. seg \<noteq> []" by simp
  show ?case
    unfolding seg
    by (simp add: Cons.IH [OF rest] Let_def) (simp add: segments_of_def)
qed

lemma last_segments_of_not_Nil:
  "segments_of ty m \<noteq> [] \<Longrightarrow> last (segments_of ty m) \<noteq> []"
proof -
  assume "segments_of ty m \<noteq> []"
  then have "last (segments_of ty m) \<in> set (segments_of ty m)" by simp
  then show ?thesis by (auto simp: segments_of_def)
qed

lemma convert_message_last:
  assumes "\<forall>seg \<in> set m. seg \<noteq> []"
  shows "convert_message m =
     Inr [(''patient'',
           if segments_of ''PID'' m = [] then None
           else Some (PatientResource (pid_to_fhir_patient (last (segments_of ''PID'' m))))),
          (''coverage'',
           if segments_of ''PID'' m = [] \<or> segments_of ''IN1'' m = [] then None
           else Some (CoverageResource
                  (in1_to_fhir_coverage (last (segments_of ''IN1'' m))
                     (''Patient/'' @
                      (case p_identifier (pid_to_fhir_patient (last (segments_of ''PID'' m))) of
                         [] \<Rightarrow> ''temp''
                       | i # _ \<Rightarrow> i_value i)))))]"
  by (simp add: convert_message_def find_segments_last [OF assms] Let_def
      last_segments_of_not_Nil)

lemma convert_parsed:
  assumes "parse_hl7_message s = Inr m"
  shows "convert_hl7_to_fhir s =
     Inr [(''patient'',
           if segments_of ''PID'' m = [] then None
           else Some (PatientResource (pid_to_fhir_patient (last (segments_of ''PID'' m))))),
          (''coverage'',
           if segments_of ''PID'' m = [] \<or> segments_of ''IN1'' m = [] then None
           else Some (CoverageResource
                  (in1_to_fhir_coverage (last (segments_of ''IN1'' m))
                     (''Patient/'' @
                      (case p_identifier (pid_to_fhir_patient (last (segments_of ''PID'' m))) of
                         [] \<Rightarrow> ''temp''
                       | i # _ \<Rightarrow> i_value i)))))]"
proof -
  have "\<forall>seg \<in> set m. seg \<noteq> []"
    using assms hl7_parse_segments_not_Nil by (auto simp: parse_hl7_message_def)
  then show ?thesis
    by (simp add: convert_hl7_to_fhir_def assms convert_message_last)
qed

section \<open>Facts about the generator\<close>

lemma in1_parts_layout:
  "in1_parts insurance_name member_id plan group_number =
     [''IN1'', ''1'', py_or member_id [], [], py_or insurance_name [], [], [], [], [],
      py_or group_number []] @ (if truthy plan then [py_or plan []] else [])"
  by (auto simp: in1_parts_def py_or_def truthy_def Let_def split: option.splits)

text \<open>
  The message that \<open>generate_hl7_adt_message\<close> builds for a patient without insurance
  parses into its header segment and its PID segment, whatever the timestamp, as long
  as the timestamp holds no line terminator.
\<close>

lemma generated_message_parsed:
  assumes cr: "CR \<notin> set t" and lf: "LF \<notin> set t"
    and hdr: "header = ''MSH|^~'' @ [BSL] @ ''&|INTEGRATION|CLINIC|EMR|HOSPITAL|'' @ t @
                ''||ADT^A04|'' @ ''MSG'' @ t @ ''|P|2.5''"
  shows "\<exists>rest. parse_hl7_message (header @ [CR] @ ''PID|1||MRN1^^^MRN||Smith^John||19801215|M'') =
           Inr [single_field (CHR ''~'') ''MSH'' # rest,
                map (split_field (CHR ''~''))
                  [''PID'', ''1'', [], ''MRN1^^^MRN'', [], ''Smith^John'', [], ''19801215'', ''M'']]"
proof -
  define pid where "pid = ''PID|1||MRN1^^^MRN||Smith^John||19801215|M''"
  define msg where "msg = header @ [CR] @ pid"
  have cr_h: "CR \<notin> set header" using cr by (simp add: hdr)
  have lf_m: "LF \<notin> set msg" using lf by (simp add: msg_def hdr pid_def)
  have norm: "replace_lf (replace_crlf msg) = msg"
    by (simp add: replace_crlf_id replace_lf_id lf_m)
  have "msg \<noteq> []" "hd msg = CHR ''M''" "last msg = CHR ''M''"
    by (simp_all add: msg_def hdr pid_def)
  then have strip: "strip msg = msg"
    by (intro strip_id) (simp_all add: is_space_def)
  have pre: "take 3 msg = ''MSH''" "length msg \<ge> 4" "msg ! 3 = CHR ''|''"
    "find_from (CHR ''|'') 4 msg = Some 8" "take 5 (drop 3 msg) = ''|^~'' @ [BSL] @ ''&''"
    by (simp_all add: msg_def hdr find_from_def)
  have segs: "split_on CR msg = [header, pid]"
    using cr_h by (simp add: msg_def split_on_append split_on_none pid_def)
  obtain rest where h: "split_segment [CR, CHR ''|'', CHR ''~'', CHR ''^'', CHR ''&''] header =
      Inr (single_field (CHR ''~'') ''MSH'' # rest)"
    using split_segment_header by (auto simp: hdr)
  have p: "split_segment [CR, CHR ''|'', CHR ''~'', CHR ''^'', CHR ''&''] pid =
      Inr (map (split_field (CHR ''~''))
             [''PID'', ''1'', [], ''MRN1^^^MRN'', [], ''Smith^John'', [], ''19801215'', ''M''])"
    unfolding pid_def by code_simp
  have parsed: "hl7_parse msg =
      Inr [single_field (CHR ''~'') ''MSH'' # rest,
           map (split_field (CHR ''~''))
             [''PID'', ''1'', [], ''MRN1^^^MRN'', [], ''Smith^John'', [], ''19801215'', ''M'']]"
    using pre by (simp add: hl7_parse_def strip Let_def segs h p plan_ok_def)
  have "parse_hl7_message msg =
      Inr [single_field (CHR ''~'') ''MSH'' # rest,
           map (split_field (CHR ''~''))
             [''PID'', ''1'', [], ''MRN1^^^MRN'', [], ''Smith^John'', [], ''19801215'', ''M'']]"
    by (simp only: parse_hl7_message_def norm parsed)
  then show ?thesis
    unfolding msg_def pid_def by blast
qed

section \<open>The concrete messages, parsed\<close>

lemma scenario_parsed:
  "parse_hl7_message scenario_message =
     Inr [msh_fields,
          map (split_field (CHR ''~''))
            [''PID'', ''1'', [], ''MRN123456^^^MRN'', [], ''Smith^John^A'', [], ''19801215'', ''M''],
          map (split_field (CHR ''~''))
            [''IN1'', ''1'', ''PPO123'', ''BC001'', ''BlueCross BlueShield'', [], [], [],
             ''GRP456789'', ''Gold Plan PPO'']]"
  by code_simp

lemma orphan_parsed:
  "parse_hl7_message orphan_in1_message =
     Inr [msh_fields, map (split_field (CHR ''~'')) [''IN1'', ''1'', ''PPO1'', [], ''Acme'']]"
  by code_simp

lemma short_pid_parsed:
  "parse_hl7_message short_pid_message =
     Inr [msh_fields, map (split_field (CHR ''~'')) [''PID'', ''1''],
          map (split_field (CHR ''~'')) [''IN1'', ''1'', ''PPO1'', [], ''Acme'']]"
  by code_simp

lemma duplicate_parsed:
  "parse_hl7_message duplicate_message =
     Inr [msh_fields,
          map (split_field (CHR ''~''))
            [''PID'', ''1'', [], ''MRN1^^^MRN'', [], ''Smith^John'', [], ''19801215'', ''M''],
          map (split_field (CHR ''~''))
            [''IN1'', ''1'', ''PPO1'', [], ''Acme'', [], [], [], ''G1'', ''Gold''],
          map (split_field (CHR ''~''))
            [''PID'', ''2'', [], ''MRN2^^^MRN'', [], ''Jones^Mary'', [], ''19900101'', ''F''],
          map (split_field (CHR ''~''))
            [''IN1'', ''2'', ''PPO2'', [], ''Zenith'', [], [], [], ''G2'', ''Silver'']]"
  by code_simp

lemma accepted_test_parsed:
  "parse_hl7_message accepted_test_message =
     Inr [msh_fields,
          map (split_field (CHR ''~''))
            [''PID'', ''1'', [], ''MRN123456^^^MRN'', [], ''Smith^John^A'', [], ''19801215'', ''M'',
             [], [], ''123 Main St^^Boston^MA^02101'', [], ''555-1234'', [], [], ''S'', [],
             ''ACCT123456''],
          map (split_field (CHR ''~''))
            [''IN1'', ''1'', ''PPO123'', ''BC001'', ''BlueCross BlueShield'',
             ''PO Box 1234^^Boston^MA^02101'', [], [], [], [], ''GRP456789'', ''Gold Plan PPO'']]"
  by code_simp

lemma pid_only_parsed:
  "parse_hl7_message pid_only_message =
     Inr [msh_fields,
          map (split_field (CHR ''~''))
            [''PID'', ''1'', [], ''MRN1^^^MRN'', [], ''Smith^John'', [], ''19801215'', ''M'']]"
  by code_simp

section \<open>The claims\<close>

text \<open>
  Claim C1, as the code has it. Take a message that parses, with one PID segment carrying
  \<open>MRN123456^^^MRN\<close> in field 3, \<open>Smith^John^A\<close> in field 5, \<open>19801215\<close> in field 7 and
  \<open>M\<close> in field 8, and one IN1 segment carrying \<open>PPO123\<close> in field 2 and
  \<open>BlueCross BlueShield\<close> in field 4. Then \<open>convert_hl7_to_fhir\<close> yields the Patient with
  identifier value \<open>MRN123456\<close>, the one name Smith, John A, gender \<open>male\<close> and birth date
  \<open>1980-12-15\<close>, and the Coverage with subscriber id \<open>PPO123\<close>, payor
  \<open>BlueCross BlueShield\<close> and beneficiary \<open>Patient/MRN123456\<close>. The class entries come from
  IN1 fields 8 and 9: when these carry \<open>GRP456789\<close> and \<open>Gold Plan PPO\<close> the Coverage has
  the group class \<open>GRP456789\<close> followed by the plan class \<open>Gold Plan PPO\<close>, with value and
  name; when both are empty, as in the message of \<open>test_server.py\<close>, it has no class.
\<close>

theorem scenario_conversion:
  assumes "parse_hl7_message s = Inr m"
    and "segments_of ''PID'' m = [pid]"
    and "segments_of ''IN1'' m = [in1]"
    and "8 < length pid"
    and "str_field (pid ! 3) = ''MRN123456^^^MRN''"
    and "str_field (pid ! 5) = ''Smith^John^A''"
    and "str_field (pid ! 7) = ''19801215''"
    and "str_field (pid ! 8) = ''M''"
    and "9 < length in1"
    and "str_field (in1 ! 2) = ''PPO123''"
    and "str_field (in1 ! 4) = ''BlueCross BlueShield''"
    and "str_field (in1 ! 8) = ''GRP456789'' \<and> str_field (in1 ! 9) = ''Gold Plan PPO''
         \<or> str_field (in1 ! 8) = [] \<and> str_field (in1 ! 9) = []"
  shows "convert_hl7_to_fhir s =
     Inr
      [(''patient'', Some (PatientResource
          \<lparr>p_resourceType = ''Patient'',
           p_identifier = [\<lparr>i_use = ''usual'',
             i_type = [\<lparr>c_system = ''http://terminology.hl7.org/CodeSystem/v2-0203'',
                        c_code = ''MR'', c_display = ''Medical Record Number''\<rparr>],
             i_value = ''MRN123456''\<rparr>],
           p_name = [\<lparr>n_use = ''official'', n_family = ''Smith'', n_given = [''John'', ''A'']\<rparr>],
           p_gender = ''male'', p_birthDate = Some ''1980-12-15''\<rparr>)),
       (''coverage'', Some (CoverageResource
          \<lparr>cov_resourceType = ''Coverage'', cov_status = ''active'',
           cov_beneficiary = ''Patient/MRN123456'', cov_payor = [''BlueCross BlueShield''],
           cov_subscriberId = Some ''PPO123'',
           cov_class =
             (if str_field (in1 ! 8) = ''GRP456789''
              then Some [\<lparr>cl_type = [\<lparr>c_system = ''http://terminology.hl7.org/CodeSystem/coverage-class'',
                                 c_code = ''group'', c_display = ''Group''\<rparr>],
                     cl_value = ''GRP456789'', cl_name = None\<rparr>,
                    \<lparr>cl_type = [\<lparr>c_system = ''http://terminology.hl7.org/CodeSystem/coverage-class'',
                                 c_code = ''plan'', c_display = ''Plan''\<rparr>],
                     cl_value = ''Gold Plan PPO'', cl_name = Some ''Gold Plan PPO''\<rparr>]
              else None)\<rparr>))]"
proof -
  have pt: "field_true (pid ! 3)" "field_true (pid ! 5)" "field_true (pid ! 7)"
    "field_true (pid ! 8)"
    using assms(5-8) by (simp_all add: field_true_str)
  have it: "field_true (in1 ! 2)" "field_true (in1 ! 4)"
    using assms(10,11) by (simp_all add: field_true_str)
  have patient: "pid_to_fhir_patient pid =
      \<lparr>p_resourceType = ''Patient'',
           p_identifier = [\<lparr>i_use = ''usual'',
             i_type = [\<lparr>c_system = ''http://terminology.hl7.org/CodeSystem/v2-0203'',
                        c_code = ''MR'', c_display = ''Medical Record Number''\<rparr>],
             i_value = ''MRN123456''\<rparr>],
           p_name = [\<lparr>n_use = ''official'', n_family = ''Smith'', n_given = [''John'', ''A'']\<rparr>],
           p_gender = ''male'', p_birthDate = Some ''1980-12-15''\<rparr>"
    using assms(4) pt
    by (simp add: pid_to_fhir_patient_def assms(5-8) parse_hl7_name_def parse_hl7_date_def
        gender_map_def upper_def upper_char_def mr_identifier_def Let_def)
  have g: "strip ''GRP456789'' = ''GRP456789''"
    by (simp add: strip_def is_space_def)
  have p: "strip ''Gold Plan PPO'' = ''Gold Plan PPO''"
    by (simp add: strip_def is_space_def)
  define cls where
    "cls = (if str_field (in1 ! 8) = ''GRP456789''
              then Some [\<lparr>cl_type = [\<lparr>c_system = ''http://terminology.hl7.org/CodeSystem/coverage-class'',
                                 c_code = ''group'', c_display = ''Group''\<rparr>],
                     cl_value = ''GRP456789'', cl_name = None\<rparr>,
                    \<lparr>cl_type = [\<lparr>c_system = ''http://terminology.hl7.org/CodeSystem/coverage-class'',
                                 c_code = ''plan'', c_display = ''Plan''\<rparr>],
                     cl_value = ''Gold Plan PPO'', cl_name = Some ''Gold Plan PPO''\<rparr>]
              else None)"
  have cls: "cov_class (in1_to_fhir_coverage in1 ref) = cls" for ref
    using assms(9,12)
    by (auto simp: cls_def cov_class_in1 g p strip_Nil group_class_def plan_class_def Let_def)
  have coverage: "in1_to_fhir_coverage in1 ref =
      \<lparr>cov_resourceType = ''Coverage'', cov_status = ''active'', cov_beneficiary = ref,
       cov_payor = [''BlueCross BlueShield''], cov_subscriberId = Some ''PPO123'',
       cov_class = cls\<rparr>" for ref
  proof -
    have "cov_resourceType (in1_to_fhir_coverage in1 ref) = ''Coverage''"
      "cov_status (in1_to_fhir_coverage in1 ref) = ''active''"
      "cov_beneficiary (in1_to_fhir_coverage in1 ref) = ref"
      "cov_payor (in1_to_fhir_coverage in1 ref) = [''BlueCross BlueShield'']"
      "cov_subscriberId (in1_to_fhir_coverage in1 ref) = Some ''PPO123''"
      using assms(9) it
      by (simp_all add: in1_to_fhir_coverage_def assms(10,11) add_class_def Let_def)
    with cls [of ref] show ?thesis
      by (cases "in1_to_fhir_coverage in1 ref") simp
  qed
  show ?thesis
    unfolding cls_def [symmetric]
    by (simp add: convert_parsed [OF assms(1)] assms(2,3) patient coverage)
qed

text \<open>
  The theorem at the scenario message, with the group number and the plan in IN1 fields 8
  and 9, and at the message of \<open>test_server.py\<close>.
\<close>

theorem scenario_conversion_witness:
  "convert_hl7_to_fhir scenario_message =
     Inr
      [(''patient'', Some (PatientResource
          \<lparr>p_resourceType = ''Patient'',
           p_identifier = [\<lparr>i_use = ''usual'',
             i_type = [\<lparr>c_system = ''http://terminology.hl7.org/CodeSystem/v2-0203'',
                        c_code = ''MR'', c_display = ''Medical Record Number''\<rparr>],
             i_value = ''MRN123456''\<rparr>],
           p_name = [\<lparr>n_use = ''official'', n_family = ''Smith'', n_given = [''John'', ''A'']\<rparr>],
           p_gender = ''male'', p_birthDate = Some ''1980-12-15''\<rparr>)),
       (''coverage'', Some (CoverageResource
          \<lparr>cov_resourceType = ''Coverage'', cov_status = ''active'',
           cov_beneficiary = ''Patient/MRN123456'', cov_payor = [''BlueCross BlueShield''],
           cov_subscriberId = Some ''PPO123'',
           cov_class = Some [\<lparr>cl_type = [\<lparr>c_system = ''http://terminology.hl7.org/CodeSystem/coverage-class'',
                         c_code = ''group'', c_display = ''Group''\<rparr>],
             cl_value = ''GRP456789'', cl_name = None\<rparr>,
            \<lparr>cl_type = [\<lparr>c_system = ''http://terminology.hl7.org/CodeSystem/coverage-class'',
                         c_code = ''plan'', c_display = ''Plan''\<rparr>],
             cl_value = ''Gold Plan PPO'', cl_name = Some ''Gold Plan PPO''\<rparr>]\<rparr>))]
   \<and> convert_hl7_to_fhir accepted_test_message =
     Inr
      [(''patient'', Some (PatientResource
          \<lparr>p_resourceType = ''Patient'',
           p_identifier = [\<lparr>i_use = ''usual'',
             i_type = [\<lparr>c_system = ''http://terminology.hl7.org/CodeSystem/v2-0203'',
                        c_code = ''MR'', c_display = ''Medical Record Number''\<rparr>],
             i_value = ''MRN123456''\<rparr>],
           p_name = [\<lparr>n_use = ''official'', n_family = ''Smith'', n_given = [''John'', ''A'']\<rparr>],
           p_gender = ''male'', p_birthDate = Some ''1980-12-15''\<rparr>)),
       (''coverage'', Some (CoverageResource
          \<lparr>cov_resourceType = ''Coverage'', cov_status = ''active'',
           cov_beneficiary = ''Patient/MRN123456'', cov_payor = [''BlueCross BlueShield''],
           cov_subscriberId = Some ''PPO123'',
           cov_class = None\<rparr>))]"
proof -
  have a: "convert_hl7_to_fhir scenario_message =
     Inr
      [(''patient'', Some (PatientResource
          \<lparr>p_resourceType = ''Patient'',
           p_identifier = [\<lparr>i_use = ''usual'',
             i_type = [\<lparr>c_system = ''http://terminology.hl7.org/CodeSystem/v2-0203'',
                        c_code = ''MR'', c_display = ''Medical Record Number''\<rparr>],
             i_value = ''MRN123456''\<rparr>],
           p_name = [\<lparr>n_use = ''official'', n_family = ''Smith'', n_given = [''John'', ''A'']\<rparr>],
           p_gender = ''male'', p_birthDate = Some ''1980-12-15''\<rparr>)),
       (''coverage'', Some (CoverageResource
          \<lparr>cov_resourceType = ''Coverage'', cov_status = ''active'',
           cov_beneficiary = ''Patient/MRN123456'', cov_payor = [''BlueCross BlueShield''],
           cov_subscriberId = Some ''PPO123'',
           cov_class = Some [\<lparr>cl_type = [\<lparr>c_system = ''http://terminology.hl7.org/CodeSystem/coverage-class'',
                         c_code = ''group'', c_display = ''Group''\<rparr>],
             cl_value = ''GRP456789'', cl_name = None\<rparr>,
            \<lparr>cl_type = [\<lparr>c_system = ''http://terminology.hl7.org/CodeSystem/coverage-class'',
                         c_code = ''plan'', c_display = ''Plan''\<rparr>],
             cl_value = ''Gold Plan PPO'', cl_name = Some ''Gold Plan PPO''\<rparr>]\<rparr>))]"
    using scenario_conversion [OF scenario_parsed,
          of "map (split_field (CHR ''~''))
              [''PID'', ''1'', [], ''MRN123456^^^MRN'', [], ''Smith^John^A'', [], ''19801215'', ''M'']"
             "map (split_field (CHR ''~''))
              [''IN1'', ''1'', ''PPO123'', ''BC001'', ''BlueCross BlueShield'', [], [], [],
               ''GRP456789'', ''Gold Plan PPO'']"]
    by (simp add: segments_of_def msh_fields_def str_field_def single_field_def
          split_field_def)
  have b: "convert_hl7_to_fhir accepted_test_message =
     Inr
      [(''patient'', Some (PatientResource
          \<lparr>p_resourceType = ''Patient'',
           p_identifier = [\<lparr>i_use = ''usual'',
             i_type = [\<lparr>c_system = ''http://terminology.hl7.org/CodeSystem/v2-0203'',
                        c_code = ''MR'', c_display = ''Medical Record Number''\<rparr>],
             i_value = ''MRN123456''\<rparr>],
           p_name = [\<lparr>n_use = ''official'', n_family = ''Smith'', n_given = [''John'', ''A'']\<rparr>],
           p_gender = ''male'', p_birthDate = Some ''1980-12-15''\<rparr>)),
       (''coverage'', Some (CoverageResource
          \<lparr>cov_resourceType = ''Coverage'', cov_status = ''active'',
           cov_beneficiary = ''Patient/MRN123456'', cov_payor = [''BlueCross BlueShield''],
           cov_subscriberId = Some ''PPO123'',
           cov_class = None\<rparr>))]"
    using scenario_conversion [OF accepted_test_parsed,
          of "map (split_field (CHR ''~''))
              [''PID'', ''1'', [], ''MRN123456^^^MRN'', [], ''Smith^John^A'', [], ''19801215'', ''M'',
               [], [], ''123 Main St^^Boston^MA^02101'', [], ''555-1234'', [], [], ''S'', [],
               ''ACCT123456'']"
             "map (split_field (CHR ''~''))
              [''IN1'', ''1'', ''PPO123'', ''BC001'', ''BlueCross BlueShield'',
               ''PO Box 1234^^Boston^MA^02101'', [], [], [], [], ''GRP456789'', ''Gold Plan PPO'']"]
    by (simp add: segments_of_def msh_fields_def str_field_def single_field_def
          split_field_def)
  from a b show ?thesis by (rule conjI)
qed

text \<open>
  The claim as the spec states it fails on the accepted test message, the one of
  \<open>test_server.py\<close>: its IN1 segment carries an address in field 5 and four empty fields
  after it, so that \<open>GRP456789\<close> is field 10 and \<open>Gold Plan PPO\<close> field 11, and its
  Coverage has no class entry.
\<close>

theorem accepted_test_message_counterexample:
  "(case parse_hl7_message accepted_test_message of
      Inl e \<Rightarrow> []
    | Inr m \<Rightarrow> map str_field (last m)) =
     [''IN1'', ''1'', ''PPO123'', ''BC001'', ''BlueCross BlueShield'',
      ''PO Box 1234^^Boston^MA^02101'', [], [], [], [], ''GRP456789'', ''Gold Plan PPO'']
   \<and> convert_hl7_to_fhir accepted_test_message =
     Inr
      [(''patient'', Some (PatientResource
          \<lparr>p_resourceType = ''Patient'',
           p_identifier = [\<lparr>i_use = ''usual'',
             i_type = [\<lparr>c_system = ''http://terminology.hl7.org/CodeSystem/v2-0203'',
                        c_code = ''MR'', c_display = ''Medical Record Number''\<rparr>],
             i_value = ''MRN123456''\<rparr>],
           p_name = [\<lparr>n_use = ''official'', n_family = ''Smith'', n_given = [''John'', ''A'']\<rparr>],
           p_gender = ''male'', p_birthDate = Some ''1980-12-15''\<rparr>)),
       (''coverage'', Some (CoverageResource
          \<lparr>cov_resourceType = ''Coverage'', cov_status = ''active'',
           cov_beneficiary = ''Patient/MRN123456'', cov_payor = [''BlueCross BlueShield''],
           cov_subscriberId = Some ''PPO123'',
           cov_class = None\<rparr>))]"
  by code_simp

text \<open>
  Claim C2. For the input MRN1, Smith, John, 12/15/1980, Male without insurance, and every
  timestamp free of line terminators (every clock reading is), the generator returns a
  message, and converting that message yields the Patient with first identifier value
  \<open>MRN1\<close>, the one name Smith, John, birth date \<open>1980-12-15\<close> and gender \<open>male\<close>.
\<close>

theorem generated_patient_round_trip:
  assumes "CR \<notin> set timestamp" and "LF \<notin> set timestamp"
  shows "\<exists>msg. generate_hl7_adt_message timestamp (Some ''MRN1'') ''Smith'' ''John''
                  ''12/15/1980'' ''Male'' None None None None = Inr msg
           \<and> convert_hl7_to_fhir msg =
               Inr
                  [(''patient'', Some (PatientResource
                      \<lparr>p_resourceType = ''Patient'',
                       p_identifier = [\<lparr>i_use = ''usual'',
                         i_type = [\<lparr>c_system = ''http://terminology.hl7.org/CodeSystem/v2-0203'',
                                    c_code = ''MR'', c_display = ''Medical Record Number''\<rparr>],
                         i_value = ''MRN1''\<rparr>],
                       p_name = [\<lparr>n_use = ''official'', n_family = ''Smith'', n_given = [''John'']\<rparr>],
                       p_gender = ''male'', p_birthDate = Some ''1980-12-15''\<rparr>)),
                   (''coverage'', None)]"
proof -
  define header where
    "header = ''MSH|^~'' @ [BSL] @ ''&|INTEGRATION|CLINIC|EMR|HOSPITAL|'' @ timestamp @
                ''||ADT^A04|'' @ ''MSG'' @ timestamp @ ''|P|2.5''"
  define msg where "msg = header @ [CR] @ ''PID|1||MRN1^^^MRN||Smith^John||19801215|M''"
  have gen: "generate_hl7_adt_message timestamp (Some ''MRN1'') ''Smith'' ''John''
                  ''12/15/1980'' ''Male'' None None None None = Inr msg"
    by (simp add: generate_hl7_adt_message_def format_date_for_hl7_def py_or_def zfill_def
        upper_def upper_char_def truthy_def Let_def msg_def header_def)
  define pidseg where
    "pidseg = map (split_field (CHR ''~''))
       [''PID'', ''1'', [], ''MRN1^^^MRN'', [], ''Smith^John'', [], ''19801215'', ''M'']"
  obtain rest where parsed:
    "parse_hl7_message msg = Inr [single_field (CHR ''~'') ''MSH'' # rest, pidseg]"
    using generated_message_parsed [OF assms header_def] unfolding msg_def pidseg_def by blast
  have patient: "pid_to_fhir_patient pidseg =
      \<lparr>p_resourceType = ''Patient'',
           p_identifier = [\<lparr>i_use = ''usual'',
             i_type = [\<lparr>c_system = ''http://terminology.hl7.org/CodeSystem/v2-0203'',
                        c_code = ''MR'', c_display = ''Medical Record Number''\<rparr>],
             i_value = ''MRN1''\<rparr>],
           p_name = [\<lparr>n_use = ''official'', n_family = ''Smith'', n_given = [''John'']\<rparr>],
           p_gender = ''male'', p_birthDate = Some ''1980-12-15''\<rparr>"
    unfolding pidseg_def by code_simp
  have pids: "segments_of ''PID'' [single_field (CHR ''~'') ''MSH'' # rest, pidseg] = [pidseg]"
    by (simp add: segments_of_def str_field_def single_field_def split_field_def pidseg_def)
  have in1s: "segments_of ''IN1'' [single_field (CHR ''~'') ''MSH'' # rest, pidseg] = []"
    by (simp add: segments_of_def str_field_def single_field_def split_field_def pidseg_def)
  have "convert_hl7_to_fhir msg =
               Inr
                  [(''patient'', Some (PatientResource
                      \<lparr>p_resourceType = ''Patient'',
                       p_identifier = [\<lparr>i_use = ''usual'',
                         i_type = [\<lparr>c_system = ''http://terminology.hl7.org/CodeSystem/v2-0203'',
                                    c_code = ''MR'', c_display = ''Medical Record Number''\<rparr>],
                         i_value = ''MRN1''\<rparr>],
                       p_name = [\<lparr>n_use = ''official'', n_family = ''Smith'', n_given = [''John'']\<rparr>],
                       p_gender = ''male'', p_birthDate = Some ''1980-12-15''\<rparr>)),
                   (''coverage'', None)]"
    by (simp add: convert_parsed [OF parsed] pids in1s patient)
  with gen show ?thesis by blast
qed

theorem generated_patient_round_trip_witness:
  "generate_hl7_adt_message ''20231031120000'' (Some ''MRN1'') ''Smith'' ''John''
      ''12/15/1980'' ''Male'' None None None None =
     Inr (''MSH|^~'' @ [BSL] @
          ''&|INTEGRATION|CLINIC|EMR|HOSPITAL|20231031120000||ADT^A04|MSG20231031120000|P|2.5'' @
          [CR] @ ''PID|1||MRN1^^^MRN||Smith^John||19801215|M'')
   \<and> convert_hl7_to_fhir
        (''MSH|^~'' @ [BSL] @
          ''&|INTEGRATION|CLINIC|EMR|HOSPITAL|20231031120000||ADT^A04|MSG20231031120000|P|2.5'' @
          [CR] @ ''PID|1||MRN1^^^MRN||Smith^John||19801215|M'') =
       Inr
        [(''patient'', Some (PatientResource
            \<lparr>p_resourceType = ''Patient'',
             p_identifier = [\<lparr>i_use = ''usual'',
               i_type = [\<lparr>c_system = ''http://terminology.hl7.org/CodeSystem/v2-0203'',
                          c_code = ''MR'', c_display = ''Medical Record Number''\<rparr>],
               i_value = ''MRN1''\<rparr>],
             p_name = [\<lparr>n_use = ''official'', n_family = ''Smith'', n_given = [''John'']\<rparr>],
             p_gender = ''male'', p_birthDate = Some ''1980-12-15''\<rparr>)),
         (''coverage'', None)]"
proof -
  have gen: "generate_hl7_adt_message ''20231031120000'' (Some ''MRN1'') ''Smith'' ''John''
      ''12/15/1980'' ''Male'' None None None None =
     Inr (''MSH|^~'' @ [BSL] @
          ''&|INTEGRATION|CLINIC|EMR|HOSPITAL|20231031120000||ADT^A04|MSG20231031120000|P|2.5'' @
          [CR] @ ''PID|1||MRN1^^^MRN||Smith^John||19801215|M'')"
    by (simp add: generate_hl7_adt_message_def format_date_for_hl7_def py_or_def zfill_def
        upper_def upper_char_def truthy_def Let_def)
  have "CR \<notin> set ''20231031120000''" "LF \<notin> set ''20231031120000''" by simp_all
  from generated_patient_round_trip [OF this] gen show ?thesis by auto
qed

text \<open>
  Claim C3, as the code has it. The loop assigns \<open>pid_segment\<close> and \<open>in1_segment\<close> at
  every matching segment and never stops, so for every message that parses and holds a
  PID segment the Patient is built from the last PID segment and the Coverage from the
  last IN1 segment; earlier duplicates have no effect.
\<close>

theorem last_duplicate_segment_wins:
  assumes "parse_hl7_message s = Inr m" and "segments_of ''PID'' m \<noteq> []"
  shows "convert_hl7_to_fhir s =
     Inr [(''patient'',
           Some (PatientResource (pid_to_fhir_patient (last (segments_of ''PID'' m))))),
          (''coverage'',
           if segments_of ''IN1'' m = [] then None
           else Some (CoverageResource
                  (in1_to_fhir_coverage (last (segments_of ''IN1'' m))
                     (''Patient/'' @
                      (case p_identifier (pid_to_fhir_patient (last (segments_of ''PID'' m))) of
                         [] \<Rightarrow> ''temp''
                       | i # _ \<Rightarrow> i_value i)))))]"
  by (simp add: convert_parsed [OF assms(1)] assms(2))

theorem last_duplicate_segment_wins_witness:
  "convert_hl7_to_fhir duplicate_message =
     Inr
      [(''patient'', Some (PatientResource
          \<lparr>p_resourceType = ''Patient'',
           p_identifier = [\<lparr>i_use = ''usual'',
             i_type = [\<lparr>c_system = ''http://terminology.hl7.org/CodeSystem/v2-0203'',
                        c_code = ''MR'', c_display = ''Medical Record Number''\<rparr>],
             i_value = ''MRN2''\<rparr>],
           p_name = [\<lparr>n_use = ''official'', n_family = ''Jones'', n_given = [''Mary'']\<rparr>],
           p_gender = ''female'', p_birthDate = Some ''1990-01-01''\<rparr>)),
       (''coverage'', Some (CoverageResource
          \<lparr>cov_resourceType = ''Coverage'', cov_status = ''active'',
           cov_beneficiary = ''Patient/MRN2'', cov_payor = [''Zenith''],
           cov_subscriberId = Some ''PPO2'',
           cov_class = Some [\<lparr>cl_type = [\<lparr>c_system = ''http://terminology.hl7.org/CodeSystem/coverage-class'',
                         c_code = ''group'', c_display = ''Group''\<rparr>],
             cl_value = ''G2'', cl_name = None\<rparr>,
            \<lparr>cl_type = [\<lparr>c_system = ''http://terminology.hl7.org/CodeSystem/coverage-class'',
                         c_code = ''plan'', c_display = ''Plan''\<rparr>],
             cl_value = ''Silver'', cl_name = Some ''Silver''\<rparr>]\<rparr>))]"
proof -
  have pids: "segments_of ''PID'' [msh_fields,
          map (split_field (CHR ''~''))
            [''PID'', ''1'', [], ''MRN1^^^MRN'', [], ''Smith^John'', [], ''19801215'', ''M''],
          map (split_field (CHR ''~''))
            [''IN1'', ''1'', ''PPO1'', [], ''Acme'', [], [], [], ''G1'', ''Gold''],
          map (split_field (CHR ''~''))
            [''PID'', ''2'', [], ''MRN2^^^MRN'', [], ''Jones^Mary'', [], ''19900101'', ''F''],
          map (split_field (CHR ''~''))
            [''IN1'', ''2'', ''PPO2'', [], ''Zenith'', [], [], [], ''G2'', ''Silver'']] \<noteq> []"
    by code_simp
  show ?thesis
    unfolding last_duplicate_segment_wins [OF duplicate_parsed pids]
    by code_simp
qed

text \<open>
  The claim as the spec states it, first segment wins, fails on a message with two PID
  and two IN1 segments: its conversion is that of the later pair alone, and differs from
  that of the first pair alone.
\<close>

theorem first_segment_counterexample:
  "convert_hl7_to_fhir duplicate_message = convert_hl7_to_fhir later_only_message
   \<and> convert_hl7_to_fhir duplicate_message \<noteq> convert_hl7_to_fhir first_only_message
   \<and> convert_hl7_to_fhir first_only_message =
     Inr
      [(''patient'', Some (PatientResource
          \<lparr>p_resourceType = ''Patient'',
           p_identifier = [\<lparr>i_use = ''usual'',
             i_type = [\<lparr>c_system = ''http://terminology.hl7.org/CodeSystem/v2-0203'',
                        c_code = ''MR'', c_display = ''Medical Record Number''\<rparr>],
             i_value = ''MRN1''\<rparr>],
           p_name = [\<lparr>n_use = ''official'', n_family = ''Smith'', n_given = [''John'']\<rparr>],
           p_gender = ''male'', p_birthDate = Some ''1980-12-15''\<rparr>)),
       (''coverage'', Some (CoverageResource
          \<lparr>cov_resourceType = ''Coverage'', cov_status = ''active'',
           cov_beneficiary = ''Patient/MRN1'', cov_payor = [''Acme''],
           cov_subscriberId = Some ''PPO1'',
           cov_class = Some [\<lparr>cl_type = [\<lparr>c_system = ''http://terminology.hl7.org/CodeSystem/coverage-class'',
                         c_code = ''group'', c_display = ''Group''\<rparr>],
             cl_value = ''G1'', cl_name = None\<rparr>,
            \<lparr>cl_type = [\<lparr>c_system = ''http://terminology.hl7.org/CodeSystem/coverage-class'',
                         c_code = ''plan'', c_display = ''Plan''\<rparr>],
             cl_value = ''Gold'', cl_name = Some ''Gold''\<rparr>]\<rparr>))]"
  by code_simp

text \<open>
  Claim C4, as the code has it. For every message that parses, \<open>convert_hl7_to_fhir\<close>
  returns the dictionary with the two keys \<open>patient\<close> and \<open>coverage\<close>. The value of
  \<open>patient\<close> is a Patient iff the message has a PID segment, and \<open>None\<close> otherwise; the
  value of \<open>coverage\<close> is a Coverage iff the message has a PID and an IN1 segment, and
  \<open>None\<close> otherwise. A Coverage comes with a Patient, and its beneficiary reference is
  \<open>Patient/\<close> followed by the value of the Patient's first identifier, or by \<open>temp\<close> when
  the Patient has no identifier. Without an IN1 segment the key \<open>coverage\<close> is still
  there, with the value \<open>None\<close>, not an empty resource.
\<close>

theorem patient_and_coverage_presence:
  assumes "parse_hl7_message s = Inr m"
  shows "\<exists>p c. convert_hl7_to_fhir s = Inr [(''patient'', p), (''coverage'', c)]
           \<and> (p \<noteq> None \<longleftrightarrow> segments_of ''PID'' m \<noteq> [])
           \<and> (c \<noteq> None \<longleftrightarrow>
                segments_of ''PID'' m \<noteq> [] \<and> segments_of ''IN1'' m \<noteq> [])
           \<and> (case p of
                 None \<Rightarrow> True
               | Some (PatientResource patient) \<Rightarrow> True
               | Some (CoverageResource coverage) \<Rightarrow> False)
           \<and> (case c of
                 None \<Rightarrow> True
               | Some (PatientResource patient) \<Rightarrow> False
               | Some (CoverageResource coverage) \<Rightarrow>
                   (case p of
                      Some (PatientResource patient) \<Rightarrow>
                        cov_beneficiary coverage =
                          ''Patient/'' @ (case p_identifier patient of
                                            [] \<Rightarrow> ''temp''
                                          | i # _ \<Rightarrow> i_value i)
                    | _ \<Rightarrow> False))"
  by (simp add: convert_parsed [OF assms] cov_beneficiary_in1)

theorem patient_and_coverage_presence_witness:
  "convert_hl7_to_fhir orphan_in1_message = Inr [(''patient'', None), (''coverage'', None)]
   \<and> convert_hl7_to_fhir short_pid_message =
     Inr
      [(''patient'', Some (PatientResource
          \<lparr>p_resourceType = ''Patient'',
           p_identifier = [],
           p_name = [],
           p_gender = ''unknown'', p_birthDate = None\<rparr>)),
       (''coverage'', Some (CoverageResource
          \<lparr>cov_resourceType = ''Coverage'', cov_status = ''active'',
           cov_beneficiary = ''Patient/temp'', cov_payor = [''Acme''],
           cov_subscriberId = Some ''PPO1'',
           cov_class = None\<rparr>))]
   \<and> convert_hl7_to_fhir pid_only_message =
     Inr
      [(''patient'', Some (PatientResource
          \<lparr>p_resourceType = ''Patient'',
           p_identifier = [\<lparr>i_use = ''usual'',
             i_type = [\<lparr>c_system = ''http://terminology.hl7.org/CodeSystem/v2-0203'',
                        c_code = ''MR'', c_display = ''Medical Record Number''\<rparr>],
             i_value = ''MRN1''\<rparr>],
           p_name = [\<lparr>n_use = ''official'', n_family = ''Smith'', n_given = [''John'']\<rparr>],
           p_gender = ''male'', p_birthDate = Some ''1980-12-15''\<rparr>)),
       (''coverage'', None)]"
proof -
  have a: "convert_hl7_to_fhir orphan_in1_message =
      Inr [(''patient'', None), (''coverage'', None)]"
    by code_simp
  have b: "convert_hl7_to_fhir short_pid_message =
     Inr
      [(''patient'', Some (PatientResource
          \<lparr>p_resourceType = ''Patient'',
           p_identifier = [],
           p_name = [],
           p_gender = ''unknown'', p_birthDate = None\<rparr>)),
       (''coverage'', Some (CoverageResource
          \<lparr>cov_resourceType = ''Coverage'', cov_status = ''active'',
           cov_beneficiary = ''Patient/temp'', cov_payor = [''Acme''],
           cov_subscriberId = Some ''PPO1'',
           cov_class = None\<rparr>))]"
    by code_simp
  have c: "convert_hl7_to_fhir pid_only_message =
     Inr
      [(''patient'', Some (PatientResource
          \<lparr>p_resourceType = ''Patient'',
           p_identifier = [\<lparr>i_use = ''usual'',
             i_type = [\<lparr>c_system = ''http://terminology.hl7.org/CodeSystem/v2-0203'',
                        c_code = ''MR'', c_display = ''Medical Record Number''\<rparr>],
             i_value = ''MRN1''\<rparr>],
           p_name = [\<lparr>n_use = ''official'', n_family = ''Smith'', n_given = [''John'']\<rparr>],
           p_gender = ''male'', p_birthDate = Some ''1980-12-15''\<rparr>)),
       (''coverage'', None)]"
    by code_simp
  show ?thesis
    using patient_and_coverage_presence [OF orphan_parsed]
      patient_and_coverage_presence [OF short_pid_parsed]
      patient_and_coverage_presence [OF pid_only_parsed] a b c
    by auto
qed

text \<open>
  The claim as the spec states it, the coverage key absent without an IN1 segment, fails
  on a message with a PID segment and no IN1 segment: the result has both keys, and
  \<open>coverage\<close> holds \<open>None\<close>.
\<close>

theorem coverage_key_counterexample:
  "parse_hl7_message pid_only_message =
     Inr [msh_fields,
          map (split_field (CHR ''~''))
            [''PID'', ''1'', [], ''MRN1^^^MRN'', [], ''Smith^John'', [], ''19801215'', ''M'']]
   \<and> convert_hl7_to_fhir pid_only_message =
     Inr
      [(''patient'', Some (PatientResource
          \<lparr>p_resourceType = ''Patient'',
           p_identifier = [\<lparr>i_use = ''usual'',
             i_type = [\<lparr>c_system = ''http://terminology.hl7.org/CodeSystem/v2-0203'',
                        c_code = ''MR'', c_display = ''Medical Record Number''\<rparr>],
             i_value = ''MRN1''\<rparr>],
           p_name = [\<lparr>n_use = ''official'', n_family = ''Smith'', n_given = [''John'']\<rparr>],
           p_gender = ''male'', p_birthDate = Some ''1980-12-15''\<rparr>)),
       (''coverage'', None)]
   \<and> (case convert_hl7_to_fhir pid_only_message of
         Inl e \<Rightarrow> []
       | Inr result \<Rightarrow> map fst result) = [''patient'', ''coverage'']"
  by code_simp

text \<open>
  Claim C5, as the code has it. Given that the date of birth is accepted, the generator
  appends an IN1 segment, after a carriage return, iff the insurance name and the member
  id are both non-empty. The first ten fields of that segment are at fixed indices, with
  the group number, or the empty string for an absent one, at index 9. The plan is an
  eleventh field when supplied and is left out when absent.
\<close>

theorem in1_segment_emission:
  assumes "generate_hl7_adt_message timestamp mrn last_name first_name dob gender
             None None plan group_number = Inr base"
  shows "generate_hl7_adt_message timestamp mrn last_name first_name dob gender
             insurance_name member_id plan group_number =
           Inr (base @ (if truthy insurance_name \<and> truthy member_id
                        then CR # join ''|'' (in1_parts insurance_name member_id plan group_number)
                        else []))
         \<and> take 10 (in1_parts insurance_name member_id plan group_number) =
             [''IN1'', ''1'', py_or member_id [], [], py_or insurance_name [], [], [], [], [],
              py_or group_number []]
         \<and> drop 10 (in1_parts insurance_name member_id plan group_number) =
             (if truthy plan then [py_or plan []] else [])"
proof -
  have gen: "generate_hl7_adt_message timestamp mrn last_name first_name dob gender
             insurance_name member_id plan group_number =
           Inr (base @ (if truthy insurance_name \<and> truthy member_id
                        then CR # join ''|'' (in1_parts insurance_name member_id plan group_number)
                        else []))"
    using assms
    by (auto simp: generate_hl7_adt_message_def Let_def truthy_def split: sum.splits)
  show ?thesis
    using gen by (simp add: in1_parts_layout)
qed

theorem in1_segment_emission_witness:
  "generate_hl7_adt_message ''20231031120000'' (Some ''MRN1'') ''Smith'' ''John'' ''12/15/1980''
       ''Male'' (Some ''Acme'') (Some ''M1'') (Some ''Gold'') None =
     Inr (''MSH|^~'' @ [BSL] @ ''&|INTEGRATION|CLINIC|EMR|HOSPITAL|20231031120000||ADT^A04|MSG20231031120000|P|2.5'' @ [CR] @
          ''PID|1||MRN1^^^MRN||Smith^John||19801215|M'' @ [CR] @
          ''IN1|1|M1||Acme||||||Gold'')
   \<and> generate_hl7_adt_message ''20231031120000'' (Some ''MRN1'') ''Smith'' ''John'' ''12/15/1980''
       ''Male'' (Some ''Acme'') None (Some ''Gold'') None =
     Inr (''MSH|^~'' @ [BSL] @ ''&|INTEGRATION|CLINIC|EMR|HOSPITAL|20231031120000||ADT^A04|MSG20231031120000|P|2.5'' @ [CR] @
          ''PID|1||MRN1^^^MRN||Smith^John||19801215|M'')"
proof -
  have base: "generate_hl7_adt_message ''20231031120000'' (Some ''MRN1'') ''Smith'' ''John''
       ''12/15/1980'' ''Male'' None None (Some ''Gold'') None =
     Inr (''MSH|^~'' @ [BSL] @ ''&|INTEGRATION|CLINIC|EMR|HOSPITAL|20231031120000||ADT^A04|MSG20231031120000|P|2.5'' @ [CR] @
          ''PID|1||MRN1^^^MRN||Smith^John||19801215|M'')"
    by (simp add: generate_hl7_adt_message_def format_date_for_hl7_def py_or_def zfill_def
        upper_def upper_char_def truthy_def Let_def)
  show ?thesis
    using in1_segment_emission [OF base, of "Some ''Acme''" "Some ''M1''"]
      in1_segment_emission [OF base, of "Some ''Acme''" None]
    by (simp add: truthy_def in1_parts_def py_or_def)
qed

text \<open>
  The claim as the spec states it, an absent plan emitted as an empty field, fails: with
  no plan the segment ends after the group number field and has ten fields, against
  eleven with a plan.
\<close>

theorem absent_plan_omitted_counterexample:
  "generate_hl7_adt_message ''20231031120000'' (Some ''MRN1'') ''Smith'' ''John'' ''12/15/1980''
       ''Male'' (Some ''Acme'') (Some ''M1'') None None =
     Inr (''MSH|^~'' @ [BSL] @ ''&|INTEGRATION|CLINIC|EMR|HOSPITAL|20231031120000||ADT^A04|MSG20231031120000|P|2.5'' @ [CR] @
          ''PID|1||MRN1^^^MRN||Smith^John||19801215|M'' @ [CR] @
          ''IN1|1|M1||Acme|||||'')
   \<and> in1_parts (Some ''Acme'') (Some ''M1'') None None =
       [''IN1'', ''1'', ''M1'', [], ''Acme'', [], [], [], [], []]
   \<and> length (in1_parts (Some ''Acme'') (Some ''M1'') None None) = 10
   \<and> length (in1_parts (Some ''Acme'') (Some ''M1'') (Some ''Gold'') None) = 11"
  by (simp add: generate_hl7_adt_message_def format_date_for_hl7_def py_or_def zfill_def
        upper_def upper_char_def truthy_def Let_def in1_parts_def)

text \<open>
  Claim C6. \<open>in1_to_fhir_coverage\<close> takes the group class from IN1 field 8 and the plan
  class from IN1 field 9 and from nothing else. The IN1 fields of the generator hold the
  empty string at index 8, the group number at index 9 and the plan, when supplied, at
  index 10. So the Coverage of the generated fields has no group class and carries the
  supplied group number as its plan class. For the insurance Acme, M1, plan Gold, group
  G1 the generated message converts to a Coverage whose only class entry is the plan
  class G1.
\<close>

theorem group_plan_asymmetry:
  "cov_class (in1_to_fhir_coverage seg ref) =
     (let g = strip (if 8 < length seg then str_field (seg ! 8) else []);
          p = strip (if 9 < length seg then str_field (seg ! 9) else [])
      in if g = [] \<and> p = [] then None
         else Some ((if g = [] then [] else [group_class g]) @
                    (if p = [] then [] else [plan_class p])))
   \<and> in1_parts insurance_name member_id plan group_number ! 8 = []
   \<and> in1_parts insurance_name member_id plan group_number ! 9 = py_or group_number []
   \<and> drop 10 (in1_parts insurance_name member_id plan group_number) =
       (if truthy plan then [py_or plan []] else [])
   \<and> cov_class (in1_to_fhir_coverage
        (map (split_field (CHR ''~'')) (in1_parts insurance_name member_id plan group_number))
        patient_reference) =
       (if strip (py_or group_number []) = [] then None
        else Some [plan_class (strip (py_or group_number []))])
   \<and> generate_hl7_adt_message ''20231031120000'' (Some ''MRN1'') ''Smith'' ''John''
        ''12/15/1980'' ''Male'' (Some ''Acme'') (Some ''M1'') (Some ''Gold'') (Some ''G1'') =
       Inr generated_insured_message
   \<and> convert_hl7_to_fhir generated_insured_message =
       Inr
        [(''patient'', Some (PatientResource
            \<lparr>p_resourceType = ''Patient'',
             p_identifier = [\<lparr>i_use = ''usual'',
               i_type = [\<lparr>c_system = ''http://terminology.hl7.org/CodeSystem/v2-0203'',
                          c_code = ''MR'', c_display = ''Medical Record Number''\<rparr>],
               i_value = ''MRN1''\<rparr>],
             p_name = [\<lparr>n_use = ''official'', n_family = ''Smith'', n_given = [''John'']\<rparr>],
             p_gender = ''male'', p_birthDate = Some ''1980-12-15''\<rparr>)),
         (''coverage'', Some (CoverageResource
            \<lparr>cov_resourceType = ''Coverage'', cov_status = ''active'',
             cov_beneficiary = ''Patient/MRN1'', cov_payor = [''Acme''],
             cov_subscriberId = Some ''M1'',
             cov_class = Some [\<lparr>cl_type = [\<lparr>c_system = ''http://terminology.hl7.org/CodeSystem/coverage-class'',
                           c_code = ''plan'', c_display = ''Plan''\<rparr>],
               cl_value = ''G1'', cl_name = Some ''G1''\<rparr>]\<rparr>))]"
proof -
  have layout: "in1_parts insurance_name member_id plan group_number ! 8 = []"
    "in1_parts insurance_name member_id plan group_number ! 9 = py_or group_number []"
    "drop 10 (in1_parts insurance_name member_id plan group_number) =
       (if truthy plan then [py_or plan []] else [])"
    "9 < length (in1_parts insurance_name member_id plan group_number)"
    by (simp_all add: in1_parts_layout)
  have mapped: "cov_class (in1_to_fhir_coverage
        (map (split_field (CHR ''~'')) (in1_parts insurance_name member_id plan group_number))
        patient_reference) =
       (if strip (py_or group_number []) = [] then None
        else Some [plan_class (strip (py_or group_number []))])"
    using layout(4)
    by (simp add: cov_class_in1 str_split_field layout(1,2) strip_Nil Let_def)
  have gen: "generate_hl7_adt_message ''20231031120000'' (Some ''MRN1'') ''Smith'' ''John''
        ''12/15/1980'' ''Male'' (Some ''Acme'') (Some ''M1'') (Some ''Gold'') (Some ''G1'') =
       Inr generated_insured_message"
    by (simp add: generate_hl7_adt_message_def format_date_for_hl7_def py_or_def zfill_def
        upper_def upper_char_def truthy_def Let_def in1_parts_def generated_insured_message_def)
  have conv: "convert_hl7_to_fhir generated_insured_message =
       Inr
        [(''patient'', Some (PatientResource
            \<lparr>p_resourceType = ''Patient'',
             p_identifier = [\<lparr>i_use = ''usual'',
               i_type = [\<lparr>c_system = ''http://terminology.hl7.org/CodeSystem/v2-0203'',
                          c_code = ''MR'', c_display = ''Medical Record Number''\<rparr>],
               i_value = ''MRN1''\<rparr>],
             p_name = [\<lparr>n_use = ''official'', n_family = ''Smith'', n_given = [''John'']\<rparr>],
             p_gender = ''male'', p_birthDate = Some ''1980-12-15''\<rparr>)),
         (''coverage'', Some (CoverageResource
            \<lparr>cov_resourceType = ''Coverage'', cov_status = ''active'',
             cov_beneficiary = ''Patient/MRN1'', cov_payor = [''Acme''],
             cov_subscriberId = Some ''M1'',
             cov_class = Some [\<lparr>cl_type = [\<lparr>c_system = ''http://terminology.hl7.org/CodeSystem/coverage-class'',
                           c_code = ''plan'', c_display = ''Plan''\<rparr>],
               cl_value = ''G1'', cl_name = Some ''G1''\<rparr>]\<rparr>))]"
    by code_simp
  show ?thesis
    using cov_class_in1 [of seg ref] layout(1-3) mapped gen conv by simp
qed

theorem group_plan_asymmetry_witness:
  "in1_parts (Some ''Acme'') (Some ''M1'') (Some ''Gold'') (Some ''G1'') ! 8 = []
   \<and> in1_parts (Some ''Acme'') (Some ''M1'') (Some ''Gold'') (Some ''G1'') ! 9 = ''G1''
   \<and> drop 10 (in1_parts (Some ''Acme'') (Some ''M1'') (Some ''Gold'') (Some ''G1'')) = [''Gold'']
   \<and> cov_class (in1_to_fhir_coverage
        (map (split_field (CHR ''~''))
           (in1_parts (Some ''Acme'') (Some ''M1'') (Some ''Gold'') (Some ''G1'')))
        ''Patient/MRN1'') = Some [plan_class ''G1'']
   \<and> Some [plan_class ''G1''] \<noteq> Some [group_class ''G1'', plan_class ''Gold'']"
proof -
  have s: "strip ''G1'' = ''G1''" by (simp add: strip_def is_space_def)
  show ?thesis
    using group_plan_asymmetry [of "[]" "[]" "Some ''Acme''" "Some ''M1''" "Some ''Gold''"
        "Some ''G1''" "''Patient/MRN1''"]
    by (simp add: py_or_def truthy_def s)
qed

text \<open>
  Claim C7. For every date string \<open>D\<close> of at least 8 characters \<open>parse_hl7_date\<close> returns
  \<open>D[0:4] + "-" + D[4:6] + "-" + D[6:8]\<close>; for every shorter \<open>D\<close>, the empty string
  included, it returns \<open>None\<close>. The slices are taken in the branch that the length check
  guards, so nothing is sliced before the check has passed.
\<close>

theorem parse_hl7_date_slices:
  "(8 \<le> length D \<longrightarrow>
      parse_hl7_date D = Some (take 4 D @ ''-'' @ take 2 (drop 4 D) @ ''-'' @ take 2 (drop 6 D)))
   \<and> (length D < 8 \<longrightarrow> parse_hl7_date D = None)"
  by (auto simp: parse_hl7_date_def)

theorem parse_hl7_date_slices_witness:
  "parse_hl7_date ''19801215120000'' = Some ''1980-12-15'' \<and> parse_hl7_date ''1980121'' = None
   \<and> parse_hl7_date [] = None"
  using parse_hl7_date_slices [of "''19801215120000''"] parse_hl7_date_slices [of "''1980121''"]
    parse_hl7_date_slices [of "[]"]
  by simp

text \<open>
  Claim C8. The gender of the Patient built from a PID segment is always one of
  \<open>male\<close>, \<open>female\<close>, \<open>other\<close>, \<open>unknown\<close>. When the segment has no field 8 it is
  \<open>unknown\<close>; otherwise the text of field 8 is upper-cased and looked up in the table
  M, F, O, U, and every other text, the empty one included, gives \<open>unknown\<close>. The
  instances \<open>m\<close>, \<open>F\<close>, \<open>o\<close>, \<open>x\<close> and the empty field follow.
\<close>

theorem gender_mapping_total:
  "p_gender (pid_to_fhir_patient seg) \<in> set [''male'', ''female'', ''other'', ''unknown'']
   \<and> (length seg \<le> 8 \<longrightarrow> p_gender (pid_to_fhir_patient seg) = ''unknown'')
   \<and> (8 < length seg \<longrightarrow>
        p_gender (pid_to_fhir_patient seg) =
          (let gender_code = upper (str_field (seg ! 8)) in
           if gender_code = ''M'' then ''male''
           else if gender_code = ''F'' then ''female''
           else if gender_code = ''O'' then ''other''
           else ''unknown''))"
proof -
  have u: "\<not> field_true (seg ! 8) \<Longrightarrow> upper (str_field (seg ! 8)) = []"
    by (simp add: str_field_falsy upper_Nil)
  show ?thesis
    unfolding p_gender_pid gender_map_cases Let_def
    using u by auto
qed

theorem gender_mapping_total_witness:
  "p_gender (pid_to_fhir_patient (pid_with_gender ''m'')) = ''male''
   \<and> p_gender (pid_to_fhir_patient (pid_with_gender ''F'')) = ''female''
   \<and> p_gender (pid_to_fhir_patient (pid_with_gender ''o'')) = ''other''
   \<and> p_gender (pid_to_fhir_patient (pid_with_gender ''x'')) = ''unknown''
   \<and> p_gender (pid_to_fhir_patient (pid_with_gender [])) = ''unknown''
   \<and> p_gender (pid_to_fhir_patient (take 8 (pid_with_gender ''M''))) = ''unknown''"
  using gender_mapping_total [of "pid_with_gender ''m''"]
    gender_mapping_total [of "pid_with_gender ''F''"]
    gender_mapping_total [of "pid_with_gender ''o''"]
    gender_mapping_total [of "pid_with_gender ''x''"]
    gender_mapping_total [of "pid_with_gender []"]
    gender_mapping_total [of "take 8 (pid_with_gender ''M'')"]
  by (simp add: pid_with_gender_def single_field_def str_field_def upper_def upper_char_def)

text \<open>
  Claim C9. \<open>format_date_for_hl7\<close> splits its argument on \<open>/\<close>, which gives one part more
  than the argument has slashes. With exactly three parts it returns the third part
  followed by the first and the second, each filled with zeros to two characters; with any
  other number of parts it raises the \<open>ValueError\<close> "Invalid date format ...", the spec's
  validation error, and \<open>generate_hl7_adt_message\<close> raises the same error for such a date
  of birth.
\<close>

theorem format_date_for_hl7_shape:
  "length (split_on (CHR ''/'') d) = Suc (length (filter (\<lambda>c. c = CHR ''/'') d))
   \<and> (length (split_on (CHR ''/'') d) = 3 \<longrightarrow>
        format_date_for_hl7 d =
          Inr (split_on (CHR ''/'') d ! 2 @ zfill 2 (split_on (CHR ''/'') d ! 0) @
               zfill 2 (split_on (CHR ''/'') d ! 1)))
   \<and> (length (split_on (CHR ''/'') d) \<noteq> 3 \<longrightarrow>
        format_date_for_hl7 d =
          Inl (ValueError (''Invalid date format. Expected MM/DD/YYYY, got '' @ d))
        \<and> generate_hl7_adt_message timestamp mrn last_name first_name d gender
              insurance_name member_id plan group_number =
          Inl (ValueError (''Invalid date format. Expected MM/DD/YYYY, got '' @ d)))"
proof -
  have a: "length (split_on (CHR ''/'') d) = 3 \<Longrightarrow>
        format_date_for_hl7 d =
          Inr (split_on (CHR ''/'') d ! 2 @ zfill 2 (split_on (CHR ''/'') d ! 0) @
               zfill 2 (split_on (CHR ''/'') d ! 1))"
    by (auto simp: format_date_for_hl7_def split: list.splits)
  have b: "length (split_on (CHR ''/'') d) \<noteq> 3 \<Longrightarrow>
        format_date_for_hl7 d =
          Inl (ValueError (''Invalid date format. Expected MM/DD/YYYY, got '' @ d))"
    by (auto simp: format_date_for_hl7_def split: list.splits)
  have c: "format_date_for_hl7 d = Inl e \<Longrightarrow>
       generate_hl7_adt_message timestamp mrn last_name first_name d gender
              insurance_name member_id plan group_number = Inl e" for e
    by (simp add: generate_hl7_adt_message_def Let_def)
  show ?thesis using a b c length_split_on by blast
qed

theorem format_date_for_hl7_shape_witness:
  "format_date_for_hl7 ''12/15/1980'' = Inr ''19801215''
   \<and> format_date_for_hl7 ''1/5/1980'' = Inr ''19800105''
   \<and> format_date_for_hl7 ''1980-12-15'' =
       Inl (ValueError ''Invalid date format. Expected MM/DD/YYYY, got 1980-12-15'')
   \<and> generate_hl7_adt_message ''20231031120000'' (Some ''MRN1'') ''Smith'' ''John'' ''1980-12-15''
       ''Male'' None None None None =
       Inl (ValueError ''Invalid date format. Expected MM/DD/YYYY, got 1980-12-15'')"
  using format_date_for_hl7_shape [of "''12/15/1980''"]
    format_date_for_hl7_shape [of "''1/5/1980''"]
    format_date_for_hl7_shape [of "''1980-12-15''" "''20231031120000''" "Some ''MRN1''" "''Smith''"
      "''John''" "''Male''" None None None None]
  by (simp add: zfill_def)

text \<open>
  Claim C10. For every request with an MRN, a date of birth that splits on \<open>/\<close> into
  three parts, and either no insurance block or one whose name, member id, plan and group
  number are all non-empty, \<open>patient_service.generate_hl7_message\<close> and
  \<open>hl7_generator.generate_hl7_adt_message\<close> return the same message for the same clock
  reading, and do return one.
\<close>

theorem generators_agree:
  assumes "truthy (pd_mrn pd)"
    and "length (split_on (CHR ''/'') (pd_dob pd)) = 3"
    and "case pd_insurance pd of
           None \<Rightarrow> True
         | Some ins \<Rightarrow> ins_name ins \<noteq> [] \<and> ins_memberID ins \<noteq> [] \<and> ins_plan ins \<noteq> []
                        \<and> ins_groupNumber ins \<noteq> []"
  shows "generate_hl7_message timestamp pd =
           generate_hl7_adt_message timestamp (pd_mrn pd) (pd_lastName pd) (pd_firstName pd)
             (pd_dob pd) (pd_gender pd)
             (map_option ins_name (pd_insurance pd)) (map_option ins_memberID (pd_insurance pd))
             (map_option ins_plan (pd_insurance pd)) (map_option ins_groupNumber (pd_insurance pd))
         \<and> \<not> isl (generate_hl7_message timestamp pd)"
proof -
  obtain month day year where parts: "split_on (CHR ''/'') (pd_dob pd) = [month, day, year]"
    using assms(2) by (auto simp: length_Suc_conv numeral_3_eq_3)
  show ?thesis
  proof (cases "pd_insurance pd")
    case None
    then show ?thesis
      by (simp add: generate_hl7_message_def generate_hl7_adt_message_def
          ps_format_date_for_hl7_def format_date_for_hl7_def parts truthy_def Let_def)
  next
    case (Some ins)
    with assms(3) have ne: "ins_name ins \<noteq> []" "ins_memberID ins \<noteq> []" "ins_plan ins \<noteq> []"
      "ins_groupNumber ins \<noteq> []" by simp_all
    have in1: "join ''|'' (in1_parts (Some (ins_name ins)) (Some (ins_memberID ins))
                 (Some (ins_plan ins)) (Some (ins_groupNumber ins))) =
               ''IN1|1|'' @ ins_memberID ins @ ''||'' @ ins_name ins @ ''|||||'' @
                 ins_groupNumber ins @ ''|'' @ ins_plan ins"
      using ne by (simp add: in1_parts_def py_or_def)
    show ?thesis
      using ne
      by (simp add: generate_hl7_message_def generate_hl7_adt_message_def
          ps_format_date_for_hl7_def format_date_for_hl7_def parts truthy_def Let_def Some in1)
  qed
qed

theorem generators_agree_witness:
  "generate_hl7_message ''20231031120000'' patient_insured =
     generate_hl7_adt_message ''20231031120000'' (Some ''MRN1'') ''Smith'' ''John'' ''12/15/1980''
       ''Male'' (Some ''Acme'') (Some ''M1'') (Some ''Gold'') (Some ''G1'')
   \<and> generate_hl7_message ''20231031120000'' patient_insured =
     Inr (''MSH|^~'' @ [BSL] @ ''&|INTEGRATION|CLINIC|EMR|HOSPITAL|20231031120000||ADT^A04|MSG20231031120000|P|2.5'' @ [CR] @
          ''PID|1||MRN1^^^MRN||Smith^John||19801215|M'' @ [CR] @
          ''IN1|1|M1||Acme|||||G1|Gold'')"
proof -
  have "generate_hl7_message ''20231031120000'' patient_insured =
     Inr (''MSH|^~'' @ [BSL] @ ''&|INTEGRATION|CLINIC|EMR|HOSPITAL|20231031120000||ADT^A04|MSG20231031120000|P|2.5'' @ [CR] @
          ''PID|1||MRN1^^^MRN||Smith^John||19801215|M'' @ [CR] @
          ''IN1|1|M1||Acme|||||G1|Gold'')"
    by (simp add: generate_hl7_message_def patient_insured_def ps_format_date_for_hl7_def
        py_or_def zfill_def upper_def upper_char_def Let_def)
  moreover have "generate_hl7_message ''20231031120000'' patient_insured =
     generate_hl7_adt_message ''20231031120000'' (Some ''MRN1'') ''Smith'' ''John'' ''12/15/1980''
       ''Male'' (Some ''Acme'') (Some ''M1'') (Some ''Gold'') (Some ''G1'')"
    using generators_agree [of patient_insured "''20231031120000''"]
    by (simp add: patient_insured_def truthy_def)
  ultimately show ?thesis by simp
qed

end
